theory Spec2Isabelle
  imports Complex_Main
begin

section \<open>GeoPuzzle Walks: the data model of \<^verbatim>\<open>src/App.jsx\<close>\<close>

text \<open>
  The application is one React component. Its \<^verbatim>\<open>useState\<close> cells and refs are the
  fields of one state record, every handler is a function from state to state, and
  everything a handler obtains from the browser or the remote store (a fresh identifier,
  the clock, the answer of a query, the decoded size of an image) is an argument of it.

  Events are taken one at a time, each handler running to its end, promises included.
  The map, the sign-in form, the export text and the saving of routes are not modelled.

  A coordinate and the collection radius are finite JavaScript numbers; each is kept as
  the real number it denotes. What \<^verbatim>\<open>haversineMeters\<close> computes from them is a
  JavaScript number that may also be an infinity or \<^verbatim>\<open>NaN\<close>, and every operation of
  it is an operation of the engine, rounded as IEEE-754 binary64 prescribes. Counts, grid
  sizes and pixel sizes are integers.
\<close>

subsection \<open>Coordinates and pieces\<close>

record coord =
  lat :: real
  lng :: real

text \<open>
  A piece is \<^verbatim>\<open>{ id, lat, lng, order, imageFragmentUrl }\<close>. It extends the coordinate
  record, so that a piece can be handed to \<^verbatim>\<open>haversineMeters\<close> as the source does.
  The fields \<^verbatim>\<open>id\<close> and \<^verbatim>\<open>order\<close> are named \<open>piece_id\<close> and \<open>piece_order\<close>.
\<close>

record piece = coord +
  piece_id :: string
  piece_order :: int
  imageFragmentUrl :: string

subsection \<open>JavaScript numbers\<close>

text \<open>
  A JavaScript number is a finite double, \<^verbatim>\<open>Infinity\<close>, \<^verbatim>\<open>-Infinity\<close> or
  \<^verbatim>\<open>NaN\<close>. A finite double is kept as the real number it denotes; the two zeros are
  one value, which no operation used here tells apart.
\<close>

datatype jsnum = Num real | PosInf | NegInf | NaN

text \<open>The comparisons \<^verbatim>\<open><=\<close> and \<^verbatim>\<open>===\<close> of two numbers: false when either is \<^verbatim>\<open>NaN\<close>.\<close>

fun js_le :: "jsnum \<Rightarrow> jsnum \<Rightarrow> bool" where
  "js_le NaN _ = False"
| "js_le _ NaN = False"
| "js_le NegInf _ = True"
| "js_le _ PosInf = True"
| "js_le PosInf _ = False"
| "js_le _ NegInf = False"
| "js_le (Num x) (Num y) = (x \<le> y)"

fun js_eq :: "jsnum \<Rightarrow> jsnum \<Rightarrow> bool" where
  "js_eq NaN _ = False"
| "js_eq _ NaN = False"
| "js_eq x y = (x = y)"

text \<open>
  The operations of the engine that \<^verbatim>\<open>haversineMeters\<close> uses: \<^verbatim>\<open>+\<close>, \<^verbatim>\<open>-\<close>,
  \<^verbatim>\<open>*\<close>, \<^verbatim>\<open>/\<close>, \<^verbatim>\<open>Math.sin\<close>, \<^verbatim>\<open>Math.cos\<close>, \<^verbatim>\<open>Math.asin\<close> and
  \<^verbatim>\<open>Math.sqrt\<close>.
\<close>

record arith =
  f_add :: "jsnum \<Rightarrow> jsnum \<Rightarrow> jsnum"
  f_sub :: "jsnum \<Rightarrow> jsnum \<Rightarrow> jsnum"
  f_mul :: "jsnum \<Rightarrow> jsnum \<Rightarrow> jsnum"
  f_div :: "jsnum \<Rightarrow> jsnum \<Rightarrow> jsnum"
  m_sin :: "jsnum \<Rightarrow> jsnum"
  m_cos :: "jsnum \<Rightarrow> jsnum"
  m_asin :: "jsnum \<Rightarrow> jsnum"
  m_sqrt :: "jsnum \<Rightarrow> jsnum"

text \<open>\<^verbatim>\<open>Math.PI\<close> is the double nearest to \<open>\<pi>\<close>, \<^verbatim>\<open>884279719003555 / 2^48\<close>.\<close>

definition Math_PI :: real where
  "Math_PI = 884279719003555 / 281474976710656"

subsection \<open>Geo math (\<^verbatim>\<open>haversineMeters\<close>, lines 46-57)\<close>

text \<open>
  The function as the source has it, operation by operation and in the source's order of
  evaluation, on the engine \<open>m\<close>. The source does not bound \<^verbatim>\<open>h\<close> before it takes
  the square root and the arc sine.
\<close>

definition toRad :: "arith \<Rightarrow> jsnum \<Rightarrow> jsnum" where
  "toRad m d = f_div m (f_mul m d (Num Math_PI)) (Num 180)"

text \<open>The quantity \<^verbatim>\<open>h\<close> of the source, with its local bindings kept.\<close>

definition haversine_h :: "arith \<Rightarrow> 'a coord_scheme \<Rightarrow> 'b coord_scheme \<Rightarrow> jsnum" where
  "haversine_h m a b =
     (let dLat = toRad m (f_sub m (Num (lat b)) (Num (lat a)));
          dLng = toRad m (f_sub m (Num (lng b)) (Num (lng a)));
          lat1 = toRad m (Num (lat a));
          lat2 = toRad m (Num (lat b));
          sinDLat = m_sin m (f_div m dLat (Num 2));
          sinDLng = m_sin m (f_div m dLng (Num 2))
      in f_add m (f_mul m sinDLat sinDLat)
           (f_mul m (f_mul m (f_mul m (m_cos m lat1) (m_cos m lat2)) sinDLng) sinDLng))"

definition haversineMeters :: "arith \<Rightarrow> 'a coord_scheme \<Rightarrow> 'b coord_scheme \<Rightarrow> jsnum" where
  "haversineMeters m a b =
     f_mul m (f_mul m (Num 2) (Num 6371000)) (m_asin m (m_sqrt m (haversine_h m a b)))"

subsection \<open>IEEE-754 binary64 arithmetic\<close>

text \<open>
  The exact value of each operation on JavaScript numbers, before rounding. A product of
  zero and an infinity, a difference of equal infinities and a quotient of zeros or of
  infinities are \<^verbatim>\<open>NaN\<close>; \<^verbatim>\<open>Math.asin\<close> outside \<open>[-1, 1]\<close> and \<^verbatim>\<open>Math.sqrt\<close>
  below 0 are \<^verbatim>\<open>NaN\<close>.
\<close>

fun ex_neg :: "jsnum \<Rightarrow> jsnum" where
  "ex_neg (Num x) = Num (- x)"
| "ex_neg PosInf = NegInf"
| "ex_neg NegInf = PosInf"
| "ex_neg NaN = NaN"

fun ex_add :: "jsnum \<Rightarrow> jsnum \<Rightarrow> jsnum" where
  "ex_add NaN _ = NaN"
| "ex_add _ NaN = NaN"
| "ex_add PosInf NegInf = NaN"
| "ex_add NegInf PosInf = NaN"
| "ex_add PosInf _ = PosInf"
| "ex_add _ PosInf = PosInf"
| "ex_add NegInf _ = NegInf"
| "ex_add _ NegInf = NegInf"
| "ex_add (Num x) (Num y) = Num (x + y)"

definition ex_sub :: "jsnum \<Rightarrow> jsnum \<Rightarrow> jsnum" where
  "ex_sub x y = ex_add x (ex_neg y)"

fun js_sign :: "jsnum \<Rightarrow> int" where
  "js_sign (Num x) = (if 0 < x then 1 else if x < 0 then - 1 else 0)"
| "js_sign PosInf = 1"
| "js_sign NegInf = - 1"
| "js_sign NaN = 0"

definition inf_of_sign :: "int \<Rightarrow> jsnum" where
  "inf_of_sign s = (if 0 < s then PosInf else if s < 0 then NegInf else NaN)"

fun ex_mul :: "jsnum \<Rightarrow> jsnum \<Rightarrow> jsnum" where
  "ex_mul NaN _ = NaN"
| "ex_mul _ NaN = NaN"
| "ex_mul (Num x) (Num y) = Num (x * y)"
| "ex_mul x y = inf_of_sign (js_sign x * js_sign y)"

fun ex_div :: "jsnum \<Rightarrow> jsnum \<Rightarrow> jsnum" where
  "ex_div NaN _ = NaN"
| "ex_div _ NaN = NaN"
| "ex_div (Num x) (Num y) = (if y \<noteq> 0 then Num (x / y) else inf_of_sign (js_sign (Num x)))"
| "ex_div (Num x) _ = Num 0"
| "ex_div x (Num y) = inf_of_sign (js_sign x * (if y < 0 then - 1 else 1))"
| "ex_div _ _ = NaN"

fun ex_sin :: "jsnum \<Rightarrow> jsnum" where
  "ex_sin (Num x) = Num (sin x)"
| "ex_sin _ = NaN"

fun ex_cos :: "jsnum \<Rightarrow> jsnum" where
  "ex_cos (Num x) = Num (cos x)"
| "ex_cos _ = NaN"

fun ex_asin :: "jsnum \<Rightarrow> jsnum" where
  "ex_asin (Num x) = (if - 1 \<le> x \<and> x \<le> 1 then Num (arcsin x) else NaN)"
| "ex_asin _ = NaN"

fun ex_sqrt :: "jsnum \<Rightarrow> jsnum" where
  "ex_sqrt (Num x) = (if 0 \<le> x then Num (sqrt x) else NaN)"
| "ex_sqrt PosInf = PosInf"
| "ex_sqrt _ = NaN"

text \<open>
  Rounding to the nearest double, ties to the even one. \<open>e\<close> is the binary exponent of
  \<open>x\<close>, or that of the subnormal numbers when \<open>x\<close> is smaller; the doubles of that
  exponent are the integer multiples of \<^verbatim>\<open>q = 2^(e - 52)\<close>; a rounded magnitude of
  \<^verbatim>\<open>2^1024\<close> overflows to an infinity.
\<close>

definition round_half_even :: "real \<Rightarrow> int" where
  "round_half_even t =
     (let f = \<lfloor>t\<rfloor>
      in if t - real_of_int f < 1 / 2 then f
         else if 1 / 2 < t - real_of_int f then f + 1
         else if even f then f else f + 1)"

definition round64 :: "real \<Rightarrow> jsnum" where
  "round64 x =
     (if x = 0 then Num 0
      else
        (let e = max \<lfloor>log 2 \<bar>x\<bar>\<rfloor> (- 1022);
             q = 2 powr real_of_int (e - 52);
             y = q * real_of_int (round_half_even (x / q))
         in if 2 powr 1024 \<le> \<bar>y\<bar> then (if 0 < x then PosInf else NegInf) else Num y))"

fun rnd :: "jsnum \<Rightarrow> jsnum" where
  "rnd (Num x) = round64 x"
| "rnd v = v"

text \<open>
  The engine in which every operation returns its exact value rounded. IEEE-754 asks
  this of the four arithmetic operations and of the square root. Of \<^verbatim>\<open>Math.sin\<close>,
  \<^verbatim>\<open>Math.cos\<close> and \<^verbatim>\<open>Math.asin\<close> ECMAScript asks an approximation only, so what is
  proved below of the values of these three away from 0 is stated for every engine that
  returns the values named there.
\<close>

definition binary64 :: arith where
  "binary64 =
     \<lparr>f_add = (\<lambda>x y. rnd (ex_add x y)), f_sub = (\<lambda>x y. rnd (ex_sub x y)),
      f_mul = (\<lambda>x y. rnd (ex_mul x y)), f_div = (\<lambda>x y. rnd (ex_div x y)),
      m_sin = (\<lambda>x. rnd (ex_sin x)), m_cos = (\<lambda>x. rnd (ex_cos x)),
      m_asin = (\<lambda>x. rnd (ex_asin x)), m_sqrt = (\<lambda>x. rnd (ex_sqrt x))\<rparr>"

text \<open>
  For comparison, the arithmetic without rounding. No engine computes with it; it gives
  the distance the formula of the source denotes.
\<close>

definition exact_arith :: arith where
  "exact_arith =
     \<lparr>f_add = ex_add, f_sub = ex_sub, f_mul = ex_mul, f_div = ex_div,
      m_sin = ex_sin, m_cos = ex_cos, m_asin = ex_asin, m_sqrt = ex_sqrt\<rparr>"

subsection \<open>Identifiers (\<^verbatim>\<open>isUuid\<close>, lines 80-84)\<close>

text \<open>
  The regular expression is
  \<^verbatim>\<open>/^[0-9a-f]{8}-[0-9a-f]{4}-[1-5][0-9a-f]{3}-[89ab][0-9a-f]{3}-[0-9a-f]{12}$/i\<close>:
  36 characters in five groups, matched without regard to case.
\<close>

definition isHexDigit :: "char \<Rightarrow> bool" where
  "isHexDigit ch = (ch \<in> set ''0123456789abcdefABCDEF'')"

definition isUuid :: "string \<Rightarrow> bool" where
  "isUuid v =
     (length v = 36 \<and>
      list_all isHexDigit (take 8 v) \<and> v ! 8 = CHR ''-'' \<and>
      list_all isHexDigit (take 4 (drop 9 v)) \<and> v ! 13 = CHR ''-'' \<and>
      v ! 14 \<in> set ''12345'' \<and> list_all isHexDigit (take 3 (drop 15 v)) \<and> v ! 18 = CHR ''-'' \<and>
      v ! 19 \<in> set ''89abAB'' \<and> list_all isHexDigit (take 3 (drop 20 v)) \<and> v ! 23 = CHR ''-'' \<and>
      list_all isHexDigit (drop 24 v))"

subsection \<open>The state of the component (lines 87-111)\<close>

record route =
  route_id :: string
  route_name :: string
  center :: coord
  radiusM :: real

type_synonym timestamp = string

text \<open>The payload of one upsert into the \<^verbatim>\<open>progress\<close> table (lines 361-367).\<close>

record progress_row =
  row_route_id :: string
  row_device_id :: string
  collected_piece_ids :: "string list"
  completed_at :: "timestamp option"
  updated_at :: timestamp

text \<open>
  The success callback handed to \<^verbatim>\<open>watchPosition\<close> is created inside
  \<^verbatim>\<open>startWalk\<close>. It reads \<^verbatim>\<open>remaining\<close> and \<^verbatim>\<open>collectionRadius\<close>, which are
  \<^verbatim>\<open>const\<close> bindings of the render in which \<^verbatim>\<open>startWalk\<close> ran, so the registered
  callback keeps those two values for as long as the watch lives. Only the list handed to
  the updater of \<^verbatim>\<open>setCollectedIds\<close> (\<^verbatim>\<open>prev\<close>) is the current one.
  \<^verbatim>\<open>watchIdRef\<close> holds the registered callback, or nothing when no watch is active.
\<close>

record watcher =
  w_remaining :: "piece list"
  w_collectionRadius :: real

text \<open>
  \<^verbatim>\<open>lastSliceRef\<close> holds the string
  \<^verbatim>\<open>`${puzzleImageUrl.length}:${pieces.length}:${cols}x${rows}`\<close>; the four numbers
  determine it and it determines them, so the model keeps the four numbers (and \<open>None\<close>
  for the initial empty string). The last three fields are logs of the effects the
  handlers have on the world outside the component: the alerts shown, the upserts sent to
  the \<^verbatim>\<open>progress\<close> table, and the calls of \<^verbatim>\<open>sliceImage\<close> made by the slicing
  effect.
\<close>

record app =
  route :: route
  pieces :: "piece list"
  collectedIds :: "string list"
  userPos :: "coord option"
  collectionRadius :: real
  selectedRouteId :: string
  puzzleImageUrl :: string
  gridCols :: int
  gridRows :: int
  deviceId :: string
  walkError :: string
  adminError :: string
  walkBusy :: bool
  watchIdRef :: "watcher option"
  lastSliceRef :: "(nat \<times> nat \<times> int \<times> int) option"
  alerts :: "string list"
  upserts :: "progress_row list"
  sliceCalls :: "(string \<times> int \<times> int) list"

definition DEFAULT_ROUTE :: route where
  "DEFAULT_ROUTE =
     \<lparr>route_id = ''route-1'', route_name = ''Select a Route'',
      center = \<lparr>lat = 37.7749, lng = - 122.4194\<rparr>, radiusM = 800\<rparr>"

definition initial_app :: app where
  "initial_app =
     \<lparr>route = DEFAULT_ROUTE, pieces = [], collectedIds = [], userPos = None,
      collectionRadius = 30, selectedRouteId = [], puzzleImageUrl = [],
      gridCols = 3, gridRows = 3, deviceId = [], walkError = [], adminError = [],
      walkBusy = False, watchIdRef = None, lastSliceRef = None,
      alerts = [], upserts = [], sliceCalls = []\<rparr>"

subsection \<open>Collection engine (lines 151-209)\<close>

text \<open>\<^verbatim>\<open>[...new Set(xs)]\<close>: the elements of \<open>xs\<close> in order of first occurrence.\<close>

fun set_add_all :: "'a list \<Rightarrow> 'a list \<Rightarrow> 'a list" where
  "set_add_all acc [] = acc"
| "set_add_all acc (x # xs) = set_add_all (if x \<in> set acc then acc else acc @ [x]) xs"

definition new_Set :: "'a list \<Rightarrow> 'a list" where
  "new_Set xs = set_add_all [] xs"

text \<open>\<^verbatim>\<open>Array.prototype.sort\<close> is stable, as \<open>sort_key\<close> is.\<close>

definition orderedPieces :: "app \<Rightarrow> piece list" where
  "orderedPieces st = sort_key piece_order (pieces st)"

definition remaining :: "app \<Rightarrow> piece list" where
  "remaining st = filter (\<lambda>p. piece_id p \<notin> set (collectedIds st)) (orderedPieces st)"

definition allCollected :: "app \<Rightarrow> bool" where
  "allCollected st = (length (pieces st) > 0 \<and> length (collectedIds st) = length (pieces st))"

text \<open>\<open>geo\<close> says whether \<^verbatim>\<open>navigator.geolocation\<close> exists.\<close>

definition startWalk :: "bool \<Rightarrow> app \<Rightarrow> app" where
  "startWalk geo st =
     (if selectedRouteId st = [] then st\<lparr>alerts := alerts st @ [''Select a route first.'']\<rparr>
      else if \<not> geo
        then st\<lparr>alerts := alerts st @ [''Geolocation is not supported on this device.'']\<rparr>
      else if watchIdRef st \<noteq> None then st
      else st\<lparr>watchIdRef :=
                 Some \<lparr>w_remaining = remaining st, w_collectionRadius = collectionRadius st\<rparr>\<rparr>)"

text \<open>
  The list \<^verbatim>\<open>newlyCollected\<close> the callback computes for a sample (lines 185-187), on
  the engine \<open>m\<close>; \<^verbatim>\<open><=\<close> is \<open>js_le\<close>.
\<close>

definition newlyCollected :: "arith \<Rightarrow> watcher \<Rightarrow> coord \<Rightarrow> string list" where
  "newlyCollected m w nextPos =
     map piece_id
       (filter (\<lambda>p. js_le (haversineMeters m nextPos p) (Num (w_collectionRadius w)))
          (w_remaining w))"

text \<open>The success callback (lines 182-191); without a watch no sample is delivered.\<close>

definition onPosition :: "arith \<Rightarrow> coord \<Rightarrow> app \<Rightarrow> app" where
  "onPosition m pos st =
     (case watchIdRef st of
        None \<Rightarrow> st
      | Some w \<Rightarrow>
          (let nextPos = \<lparr>lat = lat pos, lng = lng pos\<rparr>;
               st1 = st\<lparr>userPos := Some nextPos\<rparr>
           in if newlyCollected m w nextPos \<noteq> []
              then st1\<lparr>collectedIds := new_Set (collectedIds st1 @ newlyCollected m w nextPos)\<rparr>
              else st1))"

text \<open>The error callback (lines 192-195).\<close>

definition onPositionError :: "app \<Rightarrow> app" where
  "onPositionError st =
     st\<lparr>alerts := alerts st @
        [''Unable to read location. Make sure location access is enabled.'']\<rparr>"

definition stopWalk :: "app \<Rightarrow> app" where
  "stopWalk st = (if watchIdRef st \<noteq> None then st\<lparr>watchIdRef := None\<rparr> else st)"

subsection \<open>Editing the pieces (lines 211-227)\<close>

text \<open>\<open>newId\<close> is the result of \<^verbatim>\<open>crypto.randomUUID()\<close>.\<close>

definition addPiece :: "string \<Rightarrow> coord \<Rightarrow> app \<Rightarrow> app" where
  "addPiece newId point st =
     st\<lparr>pieces := pieces st @
        [\<lparr>lat = lat point, lng = lng point, piece_id = newId,
          piece_order = int (length (pieces st)) + 1, imageFragmentUrl = []\<rparr>]\<rparr>"

definition removePiece :: "string \<Rightarrow> app \<Rightarrow> app" where
  "removePiece pieceId st =
     st\<lparr>pieces := filter (\<lambda>p. piece_id p \<noteq> pieceId) (pieces st),
        collectedIds := filter (\<lambda>i. i \<noteq> pieceId) (collectedIds st)\<rparr>"

subsection \<open>Tiling engine (lines 237-302)\<close>

text \<open>
  What the browser contributes to slicing: \<open>decodeImage\<close> gives the pixel width and
  height of the image behind a URL, or nothing when the image fails to load
  (\<^verbatim>\<open>img.onerror\<close>); \<open>toDataURL im sx sy sw sh\<close> is the PNG data URL of the canvas
  after \<^verbatim>\<open>drawImage(img, sx, sy, sw, sh, 0, 0, sw, sh)\<close>.
\<close>

record img =
  img_src :: string
  img_width :: int
  img_height :: int

record fragment =
  frag_order :: int
  fragment :: string

record browser =
  decodeImage :: "string \<Rightarrow> (int \<times> int) option"
  toDataURL :: "img \<Rightarrow> int \<Rightarrow> int \<Rightarrow> int \<Rightarrow> int \<Rightarrow> string"

text \<open>
  The inner loop over \<^verbatim>\<open>c\<close> and the outer loop over \<^verbatim>\<open>r\<close>; the pair carried
  along is the mutable \<^verbatim>\<open>order\<close> and \<^verbatim>\<open>piecesOut\<close>.
\<close>

function sliceCols ::
  "(img \<Rightarrow> int \<Rightarrow> int \<Rightarrow> int \<Rightarrow> int \<Rightarrow> string) \<Rightarrow> img \<Rightarrow> int \<Rightarrow> int \<Rightarrow> int \<Rightarrow> int \<Rightarrow> int
     \<Rightarrow> int \<times> fragment list \<Rightarrow> int \<times> fragment list" where
  "sliceCols enc im tileW tileH ncols r c (ord, piecesOut) =
     (if c < ncols
      then sliceCols enc im tileW tileH ncols r (c + 1)
             (ord + 1,
              piecesOut @ [\<lparr>frag_order = ord,
                             fragment = enc im (c * tileW) (r * tileH) tileW tileH\<rparr>])
      else (ord, piecesOut))"
  by pat_completeness auto
termination
  by (relation "measure (\<lambda>(enc, im, tileW, tileH, ncols, r, c, acc). nat (ncols - c))") auto

function sliceRows ::
  "(img \<Rightarrow> int \<Rightarrow> int \<Rightarrow> int \<Rightarrow> int \<Rightarrow> string) \<Rightarrow> img \<Rightarrow> int \<Rightarrow> int \<Rightarrow> int \<Rightarrow> int \<Rightarrow> int
     \<Rightarrow> int \<times> fragment list \<Rightarrow> fragment list" where
  "sliceRows enc im tileW tileH ncols nrows r acc =
     (if r < nrows
      then sliceRows enc im tileW tileH ncols nrows (r + 1)
             (sliceCols enc im tileW tileH ncols r 0 acc)
      else snd acc)"
  by pat_completeness auto
termination
  by (relation "measure (\<lambda>(enc, im, tileW, tileH, ncols, nrows, r, acc). nat (nrows - r))") auto

declare sliceCols.simps [simp del] sliceRows.simps [simp del]

text \<open>
  \<^verbatim>\<open>sliceImage\<close>: the promise rejects with \<^verbatim>\<open>Failed to load image.\<close> or resolves
  with the fragments. \<open>div\<close> on integers rounds down, as \<^verbatim>\<open>Math.floor\<close> of the
  quotient does. With \<open>ncols \<le> 0\<close> or \<open>nrows \<le> 0\<close> no loop body runs, so the tile
  size the source computes there (infinite or negative) reaches no fragment.
\<close>

definition sliceImage :: "browser \<Rightarrow> string \<Rightarrow> int \<Rightarrow> int \<Rightarrow> string + fragment list" where
  "sliceImage env dataUrl ncols nrows =
     (case decodeImage env dataUrl of
        None \<Rightarrow> Inl ''Failed to load image.''
      | Some (w, h) \<Rightarrow>
          (let im = \<lparr>img_src = dataUrl, img_width = w, img_height = h\<rparr>;
               tileW = img_width im div ncols;
               tileH = img_height im div nrows
           in Inr (sliceRows (toDataURL env) im tileW tileH ncols nrows 0 (1, []))))"

text \<open>
  The fragment expected at row-major position \<open>k\<close> (counted from 0) of a grid with
  \<open>ncols\<close> columns: order \<open>k + 1\<close>, cut at column \<open>k mod ncols\<close> and row
  \<open>k div ncols\<close>.
\<close>

definition tile_at ::
  "(img \<Rightarrow> int \<Rightarrow> int \<Rightarrow> int \<Rightarrow> int \<Rightarrow> string) \<Rightarrow> img \<Rightarrow> int \<Rightarrow> int \<Rightarrow> int \<Rightarrow> nat \<Rightarrow> fragment" where
  "tile_at enc im tileW tileH ncols k =
     \<lparr>frag_order = int k + 1,
      fragment = enc im ((int k mod ncols) * tileW) ((int k div ncols) * tileH) tileW tileH\<rparr>"

text \<open>\<^verbatim>\<open>computeGrid\<close> (lines 274-279), returning the pair \<^verbatim>\<open>{ cols, rows }\<close>.\<close>

definition computeGrid :: "int \<Rightarrow> int \<times> int" where
  "computeGrid count =
     (let safeCount = max 1 count;
          ncols = \<lceil>sqrt (real_of_int safeCount)\<rceil>;
          nrows = \<lceil>real_of_int safeCount / real_of_int ncols\<rceil>
      in (ncols, nrows))"

text \<open>
  The grid policy in the words of the specification:
  \<^verbatim>\<open>cols = ceil(sqrt(max(1, pieceCount)))\<close>, \<^verbatim>\<open>rows = ceil(pieceCount / cols)\<close>.
\<close>

definition computeGrid_spec :: "int \<Rightarrow> int \<times> int" where
  "computeGrid_spec pieceCount =
     (let ncols = \<lceil>sqrt (real_of_int (max 1 pieceCount))\<rceil>;
          nrows = \<lceil>real_of_int pieceCount / real_of_int ncols\<rceil>
      in (ncols, nrows))"

text \<open>\<^verbatim>\<open>applyImageFragments\<close> (lines 281-289): \<^verbatim>\<open>fragments[idx]?.fragment ?? ''\<close>.\<close>

definition applyImageFragments :: "fragment list \<Rightarrow> app \<Rightarrow> app" where
  "applyImageFragments fragments st =
     (if pieces st = [] then st
      else st\<lparr>pieces :=
             map (\<lambda>(idx, p). p\<lparr>imageFragmentUrl :=
                                 (if idx < length fragments then fragment (fragments ! idx) else [])\<rparr>)
               (enumerate 0 (pieces st))\<rparr>)"

text \<open>
  The slicing effect (lines 291-302), run after a render in which \<^verbatim>\<open>puzzleImageUrl\<close>
  or \<^verbatim>\<open>pieces.length\<close> changed. The promise of \<^verbatim>\<open>sliceImage\<close> is taken to settle
  before the next event.
\<close>

definition sliceKey :: "app \<Rightarrow> nat \<times> nat \<times> int \<times> int" where
  "sliceKey st =
     (let (ncols, nrows) = computeGrid (int (length (pieces st)))
      in (length (puzzleImageUrl st), length (pieces st), ncols, nrows))"

definition sliceEffect :: "browser \<Rightarrow> app \<Rightarrow> app" where
  "sliceEffect env st =
     (if puzzleImageUrl st = [] then st
      else if pieces st = [] then st
      else
        (let (ncols, nrows) = computeGrid (int (length (pieces st)))
         in if lastSliceRef st = Some (sliceKey st) then st
            else
              (let st1 = st\<lparr>lastSliceRef := Some (sliceKey st),
                            gridCols := ncols, gridRows := nrows,
                            sliceCalls := sliceCalls st @ [(puzzleImageUrl st, ncols, nrows)]\<rparr>
               in case sliceImage env (puzzleImageUrl st) ncols nrows of
                    Inr fragments \<Rightarrow> applyImageFragments fragments st1
                  | Inl msg \<Rightarrow> st1\<lparr>alerts := alerts st1 @ [msg]\<rparr>)))"

subsection \<open>Progress synchroniser (lines 354-378 and 413-429)\<close>

text \<open>
  \<open>now\<close> is \<^verbatim>\<open>new Date().toISOString()\<close> and \<open>err\<close> the \<^verbatim>\<open>error\<close> of the answer
  to the upsert (its message), if any.
\<close>

definition saveProgress :: "timestamp \<Rightarrow> string option \<Rightarrow> string list \<Rightarrow> app \<Rightarrow> app" where
  "saveProgress now err nextCollectedIds st =
     (if deviceId st = [] \<or> \<not> isUuid (route_id (route st)) \<or> route_id (route st) \<noteq> selectedRouteId st
      then st
      else
        (let validIds = filter isUuid nextCollectedIds;
             completedAt =
               (if length (pieces st) > 0 \<and> length validIds = length (pieces st)
                then Some now else None);
             st1 = st\<lparr>upserts := upserts st @
                     [\<lparr>row_route_id = route_id (route st), row_device_id = deviceId st,
                       collected_piece_ids = validIds, completed_at = completedAt,
                       updated_at = now\<rparr>]\<rparr>
         in case err of Some msg \<Rightarrow> st1\<lparr>walkError := msg\<rparr> | None \<Rightarrow> st1))"

definition resetProgress :: "timestamp \<Rightarrow> string option \<Rightarrow> app \<Rightarrow> app" where
  "resetProgress now err st = saveProgress now err [] (st\<lparr>collectedIds := []\<rparr>)"

text \<open>
  The saving effect (lines 508-511), run after a render in which the collected ids, the
  device id, the route id, the selected route id or the piece count changed.
\<close>

definition saveEffect :: "timestamp \<Rightarrow> string option \<Rightarrow> app \<Rightarrow> app" where
  "saveEffect now err st =
     (if deviceId st = [] \<or> \<not> isUuid (route_id (route st)) \<or> route_id (route st) \<noteq> selectedRouteId st
      then st
      else saveProgress now err (collectedIds st) st)"

text \<open>
  \<open>res\<close> is the answer to the query on \<^verbatim>\<open>progress\<close>: an error message, or the
  \<^verbatim>\<open>collected_piece_ids\<close> of the row found, if there is one.
\<close>

definition loadProgress :: "string \<Rightarrow> string list \<Rightarrow> string + string list option \<Rightarrow> app \<Rightarrow> app" where
  "loadProgress routeId pieceIds res st =
     (if routeId = [] \<or> deviceId st = [] \<or> \<not> isUuid routeId then st
      else case res of
             Inl msg \<Rightarrow> st\<lparr>walkError := msg, adminError := msg\<rparr>
           | Inr data \<Rightarrow>
               (let validSet = set pieceIds;
                    nextCollected =
                      filter (\<lambda>i. i \<in> validSet) (case data of None \<Rightarrow> [] | Some ids \<Rightarrow> ids)
                in st\<lparr>collectedIds := nextCollected\<rparr>))"

subsection \<open>Loading and creating routes (lines 431-490 and 561-572)\<close>

record route_row =
  r_id :: string
  r_name :: string
  center_lat :: real
  center_lng :: real
  radius_m :: real
  puzzle_image_url :: "string option"
  grid_cols :: "int option"
  grid_rows :: "int option"

record piece_row =
  p_id :: string
  p_lat :: real
  p_lng :: real
  p_piece_order :: int
  image_fragment_url :: "string option"

definition truthy :: "string option \<Rightarrow> bool" where
  "truthy v = (case v of None \<Rightarrow> False | Some u \<Rightarrow> u \<noteq> [])"

definition normalizePiece :: "piece_row \<Rightarrow> piece" where
  "normalizePiece row =
     \<lparr>lat = p_lat row, lng = p_lng row, piece_id = p_id row, piece_order = p_piece_order row,
      imageFragmentUrl = (case image_fragment_url row of None \<Rightarrow> [] | Some u \<Rightarrow> u)\<rparr>"

text \<open>
  \<^verbatim>\<open>loadRoute\<close>, with the answers of its three queries as arguments, in the order it
  awaits them. \<open>imageUrl\<close> is \<^verbatim>\<open>routeData.puzzle_image_url ?? ''\<close>, which is
  truthy exactly when the column is. The writes to \<^verbatim>\<open>localStorage\<close> are left out.
\<close>

definition loadRoute ::
  "browser \<Rightarrow> string \<Rightarrow> string + route_row \<Rightarrow> string + piece_row list option
     \<Rightarrow> string + string list option \<Rightarrow> app \<Rightarrow> app" where
  "loadRoute env routeId routeRes pieceRes progRes st =
     (if routeId = [] then st
      else
        (let st1 = st\<lparr>walkBusy := True, walkError := []\<rparr>
         in case routeRes of
              Inl msg \<Rightarrow> st1\<lparr>walkError := msg, adminError := msg, walkBusy := False\<rparr>
            | Inr routeData \<Rightarrow>
               (case pieceRes of
                  Inl msg \<Rightarrow> st1\<lparr>walkError := msg, adminError := msg, walkBusy := False\<rparr>
                | Inr pieceData \<Rightarrow>
                   (let rows = (case pieceData of None \<Rightarrow> [] | Some ps \<Rightarrow> ps);
                        imageUrl = (case puzzle_image_url routeData of None \<Rightarrow> [] | Some u \<Rightarrow> u);
                        hasFragments = list_ex (\<lambda>p. truthy (image_fragment_url p)) rows;
                        normalizedPieces = map normalizePiece rows;
                        st2 = st1\<lparr>route :=
                                    \<lparr>route_id = r_id routeData, route_name = r_name routeData,
                                     center = \<lparr>lat = center_lat routeData, lng = center_lng routeData\<rparr>,
                                     radiusM = radius_m routeData\<rparr>,
                                  puzzleImageUrl := imageUrl,
                                  gridCols := (case grid_cols routeData of None \<Rightarrow> 3 | Some g \<Rightarrow> g),
                                  gridRows := (case grid_rows routeData of None \<Rightarrow> 3 | Some g \<Rightarrow> g),
                                  pieces := normalizedPieces\<rparr>;
                        st3 =
                          (if \<not> hasFragments \<and> imageUrl \<noteq> []
                           then
                             (let (ncols, nrows) =
                                    computeGrid (case pieceData of None \<Rightarrow> 1
                                                 | Some ps \<Rightarrow> int (length ps))
                              in case sliceImage env imageUrl ncols nrows of
                                   Inr fragments \<Rightarrow> applyImageFragments fragments st2
                                 | Inl msg \<Rightarrow> st2\<lparr>walkError := msg, adminError := msg\<rparr>)
                           else st2);
                        st4 = loadProgress routeId (map piece_id normalizedPieces) progRes st3
                    in st4\<lparr>selectedRouteId := routeId, walkBusy := False\<rparr>))))"

text \<open>\<^verbatim>\<open>newRoute\<close>; \<open>newId\<close> is the result of \<^verbatim>\<open>crypto.randomUUID()\<close>.\<close>

definition newRoute :: "string \<Rightarrow> app \<Rightarrow> app" where
  "newRoute newId st =
     st\<lparr>route := \<lparr>route_id = newId, route_name = ''New Route'',
                  center = center (route st), radiusM = radiusM (route st)\<rparr>,
        pieces := [], collectedIds := [], puzzleImageUrl := [], selectedRouteId := []\<rparr>"

text \<open>
  \<^verbatim>\<open>importRoute\<close> (lines 338-352). \<open>parsed\<close> is the result of \<^verbatim>\<open>JSON.parse\<close>, or
  nothing when it throws; a field the text lacks is \<open>None\<close>.
\<close>

record import_payload =
  imp_route :: "route option"
  imp_pieces :: "piece list option"
  imp_puzzleImageUrl :: "string option"
  imp_gridCols :: "int option"
  imp_gridRows :: "int option"

definition importRoute :: "import_payload option \<Rightarrow> app \<Rightarrow> app" where
  "importRoute parsed st =
     (case parsed of
        None \<Rightarrow> st\<lparr>alerts := alerts st @ [''Invalid JSON'']\<rparr>
      | Some p \<Rightarrow>
         (case imp_route p of
            None \<Rightarrow> st
          | Some r \<Rightarrow>
             (case imp_pieces p of
                None \<Rightarrow> st
              | Some ps \<Rightarrow>
                  st\<lparr>route := r, pieces := ps,
                     puzzleImageUrl := (case imp_puzzleImageUrl p of None \<Rightarrow> [] | Some u \<Rightarrow> u),
                     gridCols := (case imp_gridCols p of None \<Rightarrow> 3 | Some g \<Rightarrow> g),
                     gridRows := (case imp_gridRows p of None \<Rightarrow> 3 | Some g \<Rightarrow> g),
                     collectedIds := []\<rparr>)))"

subsection \<open>A browser for concrete runs\<close>

text \<open>
  It decodes one URL, to an image of 300 by 300 pixels, and its data URLs tell the tile
  at the top left corner from the others.
\<close>

definition example_browser :: browser where
  "example_browser =
     \<lparr>decodeImage = (\<lambda>u. if u = ''data:demo'' then Some (300, 300) else None),
      toDataURL = (\<lambda>im sx sy sw sh. if sx = 0 \<and> sy = 0 then ''top-left'' else ''other'')\<rparr>"

subsection \<open>Identifiers and states for concrete runs\<close>

definition route_A :: string where
  "route_A = ''aaaaaaaa-aaaa-4aaa-8aaa-aaaaaaaaaaaa''"

definition route_B :: string where
  "route_B = ''bbbbbbbb-bbbb-4bbb-8bbb-bbbbbbbbbbbb''"

definition piece_1 :: string where
  "piece_1 = ''11111111-1111-4111-8111-111111111111''"

definition piece_2 :: string where
  "piece_2 = ''22222222-2222-4222-8222-222222222222''"

definition piece_3 :: string where
  "piece_3 = ''33333333-3333-4333-8333-333333333333''"

definition piece_4 :: string where
  "piece_4 = ''44444444-4444-4444-8444-444444444444''"

definition piece_5 :: string where
  "piece_5 = ''55555555-5555-4555-8555-555555555555''"

definition origin :: coord where
  "origin = \<lparr>lat = 0, lng = 0\<rparr>"

text \<open>The component after its mount effects: the device has its identifier.\<close>

definition mounted_app :: app where
  "mounted_app = initial_app\<lparr>deviceId := ''device-1''\<rparr>"

text \<open>The rows of two stored routes, each with one piece and no puzzle image.\<close>

definition route_row_of :: "string \<Rightarrow> route_row" where
  "route_row_of rid =
     \<lparr>r_id = rid, r_name = ''Walk'', center_lat = 0, center_lng = 0, radius_m = 800,
      puzzle_image_url = None, grid_cols = Some 3, grid_rows = Some 3\<rparr>"

definition piece_row_of :: "string \<Rightarrow> piece_row" where
  "piece_row_of pid =
     \<lparr>p_id = pid, p_lat = 0, p_lng = 0, p_piece_order = 1, image_fragment_url = None\<rparr>"

text \<open>Route A loaded, with the stored progress given.\<close>

definition loaded_A :: "string list \<Rightarrow> app" where
  "loaded_A stored =
     loadRoute example_browser route_A (Inr (route_row_of route_A))
       (Inr (Some [piece_row_of piece_1])) (Inr (Some stored)) mounted_app"

text \<open>Route A loaded while it has no piece yet.\<close>

definition loaded_empty_A :: app where
  "loaded_empty_A =
     loadRoute example_browser route_A (Inr (route_row_of route_A))
       (Inr (Some [])) (Inr None) mounted_app"

text \<open>
  The JSON of route A with one piece at the origin, the piece having the id given (an
  exported file that was edited, or written by hand, may hold any id), and with the
  puzzle image given.
\<close>

definition payload_A :: "string \<Rightarrow> string option \<Rightarrow> import_payload" where
  "payload_A pid picture =
     \<lparr>imp_route = Some \<lparr>route_id = route_A, route_name = ''Walk'', center = origin, radiusM = 800\<rparr>,
      imp_pieces = Some [\<lparr>lat = 0, lng = 0, piece_id = pid, piece_order = 1, imageFragmentUrl = []\<rparr>],
      imp_puzzleImageUrl = picture, imp_gridCols = Some 3, imp_gridRows = Some 3\<rparr>"

text \<open>
  Route A is loaded and then replaced by an import of itself in which the piece has the
  id \<^verbatim>\<open>p1\<close>; the walk starts and a sample at the origin collects the piece.
\<close>

definition legacy_A :: app where
  "legacy_A =
     onPosition binary64 origin (startWalk True (importRoute (Some (payload_A ''p1'' None)) (loaded_A [])))"

text \<open>
  A first session on route A: the walk starts, a sample at the origin collects the
  piece, the saving effect stores it, and the walk stops.
\<close>

definition session_A :: app where
  "session_A =
     stopWalk (saveEffect ''2026-01-01T00:00:00.000Z'' None
       (onPosition binary64 origin (startWalk True (loaded_A []))))"

text \<open>
  Then route B is loaded and selected, route A is imported from its JSON (the selected
  id stays that of B), the walk starts and a sample at the origin collects the piece.
\<close>

definition imported_A :: app where
  "imported_A =
     onPosition binary64 origin (startWalk True (importRoute (Some (payload_A piece_1 None))
       (loadRoute example_browser route_B (Inr (route_row_of route_B))
          (Inr (Some [piece_row_of piece_2])) (Inr None) session_A)))"

text \<open>
  Route A imported with a puzzle image, and the slicing effect run; then route A
  imported again with another image, whose URL has the same length.
\<close>

definition pictured_A :: "string \<Rightarrow> app \<Rightarrow> app" where
  "pictured_A url st = importRoute (Some (payload_A piece_1 (Some url))) st"

definition sliced_A :: app where
  "sliced_A = sliceEffect example_browser (pictured_A ''data:demo'' (loaded_A []))"

definition repictured_A :: app where
  "repictured_A = pictured_A ''data:dem0'' sliced_A"

text \<open>Route A loaded with nothing collected, and the walk started.\<close>

definition walking_A :: app where
  "walking_A = startWalk True (loaded_A [])"

text \<open>The walk is started on the empty route A, and a piece is placed afterwards.\<close>

definition late_piece :: app where
  "late_piece = addPiece piece_1 origin (startWalk True loaded_empty_A)"

text \<open>Route B is loaded after route A, and the query for the progress of B fails.\<close>

definition stale_B :: app where
  "stale_B =
     loadRoute example_browser route_B (Inr (route_row_of route_B))
       (Inr (Some [piece_row_of piece_2])) (Inl ''Failed to fetch'') (loaded_A [piece_1])"

text \<open>
  Four pieces placed on the empty route A; then the first two removed and a fifth piece
  placed.
\<close>

definition four_pieces :: app where
  "four_pieces =
     addPiece piece_4 origin (addPiece piece_3 origin
       (addPiece piece_2 origin (addPiece piece_1 origin loaded_empty_A)))"

definition regrown :: app where
  "regrown = addPiece piece_5 origin (removePiece piece_2 (removePiece piece_1 four_pieces))"

subsection \<open>Two distant points and their engines\<close>

text \<open>
  The points \<^verbatim>\<open>{ lat: 39.015401519, lng: -90 }\<close> and
  \<^verbatim>\<open>{ lat: -39.01540152, lng: 90 }\<close>: the fields are the doubles the two literals
  denote. The points are nearly antipodal.
\<close>

definition far_a :: coord where
  "far_a = \<lparr>lat = 5490929616958709 / 140737488355328, lng = - 90\<rparr>"

definition far_b :: coord where
  "far_b = \<lparr>lat = - 2745464808549723 / 70368744177664, lng = 90\<rparr>"

text \<open>
  What the distance of the two points needs of an engine. Its four arithmetic operations
  and its square root are those of IEEE-754. Its \<^verbatim>\<open>Math.asin\<close> returns \<^verbatim>\<open>NaN\<close>
  above 1, as ECMAScript prescribes. Its \<^verbatim>\<open>Math.sin\<close> and \<^verbatim>\<open>Math.cos\<close> return, at
  the four arguments the computation reaches, the doubles
  \<^verbatim>\<open>-0.6295292707602035\<close>, \<^verbatim>\<open>1\<close>, \<^verbatim>\<open>0.7769767675192506\<close> and
  \<^verbatim>\<open>0.7769767675082633\<close>.
\<close>

definition ieee_arith :: "arith \<Rightarrow> bool" where
  "ieee_arith m =
     (f_add m = f_add binary64 \<and> f_sub m = f_sub binary64 \<and> f_mul m = f_mul binary64 \<and>
      f_div m = f_div binary64 \<and> m_sqrt m = m_sqrt binary64)"

definition asin_domain :: "arith \<Rightarrow> bool" where
  "asin_domain m = (\<forall>x. 1 < x \<longrightarrow> m_asin m (Num x) = NaN)"

definition trig_recorded :: "arith \<Rightarrow> bool" where
  "trig_recorded m =
     (m_sin m (Num (- 3066713625997719 / 4503599627370496))
        = Num (- 5670295578428945 / 9007199254740992) \<and>
      m_sin m (Num (884279719003555 / 562949953421312)) = Num 1 \<and>
      m_cos m (Num (3066713625958417 / 4503599627370496))
        = Num (6998384561350459 / 9007199254740992) \<and>
      m_cos m (Num (- 6133427252074039 / 9007199254740992))
        = Num (3499192280625747 / 4503599627370496))"

text \<open>The engine \<open>binary64\<close> with these four values of the library entered.\<close>

definition recorded_engine :: arith where
  "recorded_engine =
     binary64
       \<lparr>m_sin := (\<lambda>v. if v = Num (- 3066713625997719 / 4503599627370496)
                        then Num (- 5670295578428945 / 9007199254740992)
                      else if v = Num (884279719003555 / 562949953421312) then Num 1
                      else m_sin binary64 v),
        m_cos := (\<lambda>v. if v = Num (3066713625958417 / 4503599627370496)
                        then Num (6998384561350459 / 9007199254740992)
                      else if v = Num (- 6133427252074039 / 9007199254740992)
                        then Num (3499192280625747 / 4503599627370496)
                      else m_cos binary64 v)\<rparr>"

section \<open>Geo math: properties\<close>

subsection \<open>Rounding\<close>

lemma rhe_near:
  assumes "real_of_int k - 1 / 2 < t" and "t < real_of_int k + 1 / 2"
  shows "round_half_even t = k"
proof (cases "real_of_int k \<le> t")
  case True
  then have f: "\<lfloor>t\<rfloor> = k" using assms by linarith
  show ?thesis using assms True by (simp add: round_half_even_def f)
next
  case False
  then have f: "\<lfloor>t\<rfloor> = k - 1" using assms by linarith
  show ?thesis using assms False by (simp add: round_half_even_def f)
qed

lemma rhe_tie:
  assumes "t = real_of_int f + 1 / 2" and "k = (if even f then f else f + 1)"
  shows "round_half_even t = k"
proof -
  have f: "\<lfloor>t\<rfloor> = f" using assms(1) by linarith
  show ?thesis using assms by (simp add: round_half_even_def f)
qed

lemma round64_from_rhe:
  assumes lo: "2 powr real_of_int e \<le> \<bar>x\<bar>" and hi: "\<bar>x\<bar> < 2 powr real_of_int (e + 1)"
    and e: "- 1022 \<le> e"
    and k: "round_half_even (x / 2 powr real_of_int (e - 52)) = k"
    and y: "y = real_of_int k * 2 powr real_of_int (e - 52)"
    and fin: "\<bar>y\<bar> < 2 powr 1024"
  shows "round64 x = Num y"
proof -
  have pos: "0 < \<bar>x\<bar>" using lo by (smt (verit) powr_gt_zero)
  then have nz: "x \<noteq> 0" by simp
  have fl: "\<lfloor>log 2 \<bar>x\<bar>\<rfloor> = e"
    using lo hi pos by (simp add: floor_log_eq_powr_iff)
  have mx: "max \<lfloor>log 2 \<bar>x\<bar>\<rfloor> (- 1022) = e" using fl e by simp
  have y': "2 powr real_of_int (e - 52) * real_of_int k = y"
    using y by (simp add: mult.commute)
  have small: "\<not> 2 powr 1024 \<le> \<bar>y\<bar>" using fin by linarith
  show ?thesis
    unfolding round64_def Let_def mx k y'
    using nz small by (simp only: if_False)
qed

lemma round_half_even_int: "round_half_even (real_of_int k) = k"
  by (simp add: round_half_even_def)

lemma round64_0: "round64 0 = Num 0"
  by (simp add: round64_def)

lemma round64_1: "round64 1 = Num 1"
proof (rule round64_from_rhe[where e = 0 and k = "2 ^ 52"])
  show "round_half_even (1 / 2 powr real_of_int (0 - 52)) = 2 ^ 52"
    using round_half_even_int[of "2 ^ 52"] by (simp add: powr_minus)
qed (simp_all add: powr_minus)

lemma round64_earth: "round64 12742000 = Num 12742000"
proof (rule round64_from_rhe[where e = 23 and k = "12742000 * 2 ^ 29"])
  show "round_half_even (12742000 / 2 powr real_of_int (23 - 52)) = 12742000 * 2 ^ 29"
    using round_half_even_int[of "12742000 * 2 ^ 29"] by (simp add: powr_minus)
qed (simp_all add: powr_minus)

lemma b64_add: "f_add binary64 (Num x) (Num y) = round64 (x + y)"
  by (simp add: binary64_def)

lemma b64_sub: "f_sub binary64 (Num x) (Num y) = round64 (x - y)"
  by (simp add: binary64_def ex_sub_def)

lemma b64_mul: "f_mul binary64 (Num x) (Num y) = round64 (x * y)"
  by (simp add: binary64_def)

lemma b64_div: "f_div binary64 (Num x) (Num 180) = round64 (x / 180)"
  "f_div binary64 (Num x) (Num 2) = round64 (x / 2)"
  by (simp_all add: binary64_def)

lemma b64_mul_NaN: "f_mul binary64 v NaN = NaN"
  by (cases v) (simp_all add: binary64_def)

subsection \<open>The distance between two points at the origin\<close>

lemma haversineMeters_origin:
  assumes "lat a = 0" "lng a = 0" "lat b = 0" "lng b = 0"
  shows "haversineMeters binary64 a b = Num 0"
  using assms
  by (simp add: haversineMeters_def haversine_h_def toRad_def Let_def binary64_def ex_sub_def
      round64_0 round64_1 round64_earth)

subsection \<open>The distance without rounding\<close>

text \<open>
  In exact arithmetic \<^verbatim>\<open>h\<close> lies between 0 and 1, and the distance of a point from
  itself is 0, the distance is symmetric, and it is never negative.
\<close>

lemma sin_half_sq: "sin (x / 2) * sin (x / 2) = (1 - cos x) / (2::real)"
proof -
  have "cos x = cos (2 * (x / 2))" by simp
  also have "\<dots> = 1 - 2 * (sin (x / 2))\<^sup>2" by (rule cos_double_sin)
  finally show ?thesis by (simp add: power2_eq_square)
qed

lemma convex_form:
  fixes s p q :: real
  shows "(1 - cos (q - p)) / 2 + cos p * cos q * s
       = (1 - s) * ((1 - cos (q - p)) / 2) + s * ((1 + cos (q + p)) / 2)"
  by (simp add: cos_diff cos_add field_simps)

lemma half_range:
  fixes x :: real
  shows "0 \<le> (1 - cos x) / 2" "(1 - cos x) / 2 \<le> 1" "0 \<le> (1 + cos x) / 2" "(1 + cos x) / 2 \<le> 1"
proof -
  have "cos x \<le> 1" "- 1 \<le> cos x" by simp_all
  note c = this
  show "0 \<le> (1 - cos x) / 2" using c by argo
  show "(1 - cos x) / 2 \<le> 1" using c by argo
  show "0 \<le> (1 + cos x) / 2" using c by argo
  show "(1 + cos x) / 2 \<le> 1" using c by argo
qed

lemma hav_range:
  fixes p q l :: real
  shows "0 \<le> sin ((q - p) / 2) * sin ((q - p) / 2) + cos p * cos q * sin (l / 2) * sin (l / 2)"
    and "sin ((q - p) / 2) * sin ((q - p) / 2) + cos p * cos q * sin (l / 2) * sin (l / 2) \<le> 1"
proof -
  define s where "s = sin (l / 2) * sin (l / 2)"
  define A where "A = (1 - cos (q - p)) / 2"
  define B where "B = (1 + cos (q + p)) / 2"
  have h: "sin ((q - p) / 2) * sin ((q - p) / 2) + cos p * cos q * sin (l / 2) * sin (l / 2)
           = (1 - s) * A + s * B"
    unfolding s_def A_def B_def sin_half_sq[of "q - p"]
    using convex_form[of q p "sin (l / 2) * sin (l / 2)"] by (simp add: mult.assoc)
  have s: "0 \<le> s" "s \<le> 1"
    unfolding s_def by (simp_all add: abs_square_le_1 flip: power2_eq_square)
  have A: "0 \<le> A" "A \<le> 1"
    unfolding A_def by (rule half_range(1), rule half_range(2))
  have B: "0 \<le> B" "B \<le> 1"
    unfolding B_def by (rule half_range(3), rule half_range(4))
  have lo: "0 \<le> (1 - s) * A + s * B"
    using s A B by (simp add: add_nonneg_nonneg)
  have "(1 - s) * A + s * B \<le> (1 - s) * 1 + s * 1"
    using s A B by (intro add_mono mult_left_mono) simp_all
  then have hi: "(1 - s) * A + s * B \<le> 1" by simp
  show "0 \<le> sin ((q - p) / 2) * sin ((q - p) / 2) + cos p * cos q * sin (l / 2) * sin (l / 2)"
    using lo h by simp
  show "sin ((q - p) / 2) * sin ((q - p) / 2) + cos p * cos q * sin (l / 2) * sin (l / 2) \<le> 1"
    using hi h by simp
qed

lemma haversine_h_exact:
  "haversine_h exact_arith a b =
     Num (sin ((lat b * Math_PI / 180 - lat a * Math_PI / 180) / 2) *
          sin ((lat b * Math_PI / 180 - lat a * Math_PI / 180) / 2) +
          cos (lat a * Math_PI / 180) * cos (lat b * Math_PI / 180) *
          sin ((lng b - lng a) * Math_PI / 180 / 2) * sin ((lng b - lng a) * Math_PI / 180 / 2))"
  by (simp add: haversine_h_def toRad_def exact_arith_def ex_sub_def Let_def
      diff_divide_distrib left_diff_distrib)

lemma haversineMeters_exact:
  "\<exists>h. 0 \<le> h \<and> h \<le> 1 \<and> haversine_h exact_arith a b = Num h \<and>
       haversineMeters exact_arith a b = Num (2 * 6371000 * arcsin (sqrt h))"
proof -
  define h where "h = sin ((lat b * Math_PI / 180 - lat a * Math_PI / 180) / 2) *
          sin ((lat b * Math_PI / 180 - lat a * Math_PI / 180) / 2) +
          cos (lat a * Math_PI / 180) * cos (lat b * Math_PI / 180) *
          sin ((lng b - lng a) * Math_PI / 180 / 2) * sin ((lng b - lng a) * Math_PI / 180 / 2)"
  have r: "0 \<le> h" "h \<le> 1"
    unfolding h_def by (rule hav_range(1), rule hav_range(2))
  have e: "haversine_h exact_arith a b = Num h"
    unfolding h_def by (rule haversine_h_exact)
  have q: "0 \<le> sqrt h" "sqrt h \<le> 1" using r by simp_all
  then have q': "- 1 \<le> sqrt h" by linarith
  have d: "haversineMeters exact_arith a b = Num (2 * 6371000 * arcsin (sqrt h))"
    using r q q' by (simp add: haversineMeters_def e) (simp add: exact_arith_def)
  show ?thesis using r e d by blast
qed

lemma hav_sym:
  fixes p q l l' :: real
  assumes "l' = - l"
  shows "sin ((q - p) / 2) * sin ((q - p) / 2) + cos p * cos q * sin (l / 2) * sin (l / 2) =
         sin ((p - q) / 2) * sin ((p - q) / 2) + cos q * cos p * sin (l' / 2) * sin (l' / 2)"
proof -
  have a: "sin ((q - p) / 2) * sin ((q - p) / 2) = sin ((p - q) / 2) * sin ((p - q) / 2)"
    unfolding sin_half_sq by (metis cos_minus minus_diff_eq)
  have b: "sin (l' / 2) * sin (l' / 2) = sin (l / 2) * sin (l / 2)"
    using assms by simp
  show ?thesis
    unfolding a using b by (simp add: mult.assoc mult.left_commute)
qed

lemma haversine_h_exact_sym: "haversine_h exact_arith a b = haversine_h exact_arith b a"
proof -
  have d: "(lng a - lng b) * Math_PI / 180 = - ((lng b - lng a) * Math_PI / 180)"
    by (simp add: field_simps)
  show ?thesis
    unfolding haversine_h_exact
    using hav_sym[OF d, of "lat b * Math_PI / 180" "lat a * Math_PI / 180"]
    by simp
qed

lemma haversineMeters_exact_props:
  "haversineMeters exact_arith a a = Num 0 \<and>
   haversineMeters exact_arith a b = haversineMeters exact_arith b a \<and>
   js_le (Num 0) (haversineMeters exact_arith a b)"
proof -
  have z: "haversineMeters exact_arith a a = Num 0"
    by (simp add: haversineMeters_def haversine_h_exact) (simp add: exact_arith_def)
  have s: "haversineMeters exact_arith a b = haversineMeters exact_arith b a"
    by (simp add: haversineMeters_def haversine_h_exact_sym[of a b])
  obtain h where h: "0 \<le> h" "h \<le> 1"
      "haversineMeters exact_arith a b = Num (2 * 6371000 * arcsin (sqrt h))"
    using haversineMeters_exact[of a b] by blast
  have "0 \<le> sqrt h" "sqrt h \<le> 1" using h by simp_all
  then have "0 \<le> arcsin (sqrt h)"
    using arcsin_le_arcsin[of 0 "sqrt h"] by simp
  then have n: "js_le (Num 0) (haversineMeters exact_arith a b)"
    by (simp add: h(3))
  show ?thesis using z s n by blast
qed

subsection \<open>The distance of the two distant points on doubles\<close>

text \<open>The two literals denote the fields of the points.\<close>

lemma far_literals:
  "round64 39.015401519 = Num (lat far_a)"
  "round64 (- 39.01540152) = Num (lat far_b)"
proof -
  show "round64 39.015401519 = Num (lat far_a)"
    unfolding far_a_def
  proof (rule round64_from_rhe[where e = 5 and k = 5490929616958709])
    show "round_half_even (39.015401519 / 2 powr real_of_int (5 - 52)) = 5490929616958709"
      by (rule rhe_near) (simp_all add: powr_minus)
  qed (simp_all add: powr_minus)
  show "round64 (- 39.01540152) = Num (lat far_b)"
    unfolding far_b_def
  proof (rule round64_from_rhe[where e = 5 and k = "- 5490929617099446"])
    show "round_half_even (- 39.01540152 / 2 powr real_of_int (5 - 52)) = - 5490929617099446"
      by (rule rhe_near) (simp_all add: powr_minus)
  qed (simp_all add: powr_minus)
qed

text \<open>
  The arithmetic steps of \<^verbatim>\<open>haversineMeters(far_a, far_b)\<close>, each the rounding of
  its exact value: \<^verbatim>\<open>dLat\<close>, \<^verbatim>\<open>dLng\<close>, \<^verbatim>\<open>lat1\<close>, \<^verbatim>\<open>lat2\<close> and their halves,
  the products, \<^verbatim>\<open>h\<close> and its square root.
\<close>

lemma far_dlat0:
  "f_sub binary64 (Num (- 2745464808549723 / 70368744177664))
       (Num (5490929616958709 / 140737488355328))
     = Num (- 2745464808514539 / 35184372088832)"
  unfolding b64_sub
proof (rule round64_from_rhe[where e = "6" and k = "- 5490929617029078"])
  show "round_half_even
          (((- 2745464808549723 / 70368744177664) - (5490929616958709 / 140737488355328))
           / 2 powr real_of_int (6 - 52))
        = (- 5490929617029078)"
    by (rule rhe_tie[where f = "- 5490929617029078"]) (simp_all add: powr_minus)
qed (simp_all add: powr_minus)

lemma far_t1:
  "f_mul binary64 (Num (- 2745464808514539 / 35184372088832))
       (Num (884279719003555 / 281474976710656))
     = Num (- 1078141509139823 / 4398046511104)"
  unfolding b64_mul
proof (rule round64_from_rhe[where e = "7" and k = "- 8625132073118584"])
  show "round_half_even
          (((- 2745464808514539 / 35184372088832) * (884279719003555 / 281474976710656))
           / 2 powr real_of_int (7 - 52))
        = (- 8625132073118584)"
    by (rule rhe_near) (simp_all add: powr_minus)
qed (simp_all add: powr_minus)

lemma far_dLat:
  "f_div binary64 (Num (- 1078141509139823 / 4398046511104))
       (Num 180)
     = Num (- 3066713625997719 / 2251799813685248)"
  unfolding b64_div
proof (rule round64_from_rhe[where e = "0" and k = "- 6133427251995438"])
  show "round_half_even
          (((- 1078141509139823 / 4398046511104) / 180)
           / 2 powr real_of_int (0 - 52))
        = (- 6133427251995438)"
    by (rule rhe_near) (simp_all add: powr_minus)
qed (simp_all add: powr_minus)

lemma far_hdLat:
  "f_div binary64 (Num (- 3066713625997719 / 2251799813685248))
       (Num 2)
     = Num (- 3066713625997719 / 4503599627370496)"
  unfolding b64_div
proof (rule round64_from_rhe[where e = "- 1" and k = "- 6133427251995438"])
  show "round_half_even
          (((- 3066713625997719 / 2251799813685248) / 2)
           / 2 powr real_of_int ((- 1) - 52))
        = (- 6133427251995438)"
    by (rule rhe_near) (simp_all add: powr_minus)
qed (simp_all add: powr_minus)

lemma far_dlng0:
  "f_sub binary64 (Num 90)
       (Num (- 90))
     = Num 180"
  unfolding b64_sub
proof (rule round64_from_rhe[where e = "7" and k = "6333186975989760"])
  show "round_half_even
          ((90 - (- 90))
           / 2 powr real_of_int (7 - 52))
        = 6333186975989760"
    by (rule rhe_near) (simp_all add: powr_minus)
qed (simp_all add: powr_minus)

lemma far_t2:
  "f_mul binary64 (Num 180)
       (Num (884279719003555 / 281474976710656))
     = Num (4974073419394997 / 8796093022208)"
  unfolding b64_mul
proof (rule round64_from_rhe[where e = "9" and k = "4974073419394997"])
  show "round_half_even
          ((180 * (884279719003555 / 281474976710656))
           / 2 powr real_of_int (9 - 52))
        = 4974073419394997"
    by (rule rhe_near) (simp_all add: powr_minus)
qed (simp_all add: powr_minus)

lemma far_dLng:
  "f_div binary64 (Num (4974073419394997 / 8796093022208))
       (Num 180)
     = Num (884279719003555 / 281474976710656)"
  unfolding b64_div
proof (rule round64_from_rhe[where e = "1" and k = "7074237752028440"])
  show "round_half_even
          (((4974073419394997 / 8796093022208) / 180)
           / 2 powr real_of_int (1 - 52))
        = 7074237752028440"
    by (rule rhe_near) (simp_all add: powr_minus)
qed (simp_all add: powr_minus)

lemma far_hdLng:
  "f_div binary64 (Num (884279719003555 / 281474976710656))
       (Num 2)
     = Num (884279719003555 / 562949953421312)"
  unfolding b64_div
proof (rule round64_from_rhe[where e = "0" and k = "7074237752028440"])
  show "round_half_even
          (((884279719003555 / 281474976710656) / 2)
           / 2 powr real_of_int (0 - 52))
        = 7074237752028440"
    by (rule rhe_near) (simp_all add: powr_minus)
qed (simp_all add: powr_minus)

lemma far_u1:
  "f_mul binary64 (Num (5490929616958709 / 140737488355328))
       (Num (884279719003555 / 281474976710656))
     = Num (539070754563003 / 4398046511104)"
  unfolding b64_mul
proof (rule round64_from_rhe[where e = "6" and k = "8625132073008048"])
  show "round_half_even
          (((5490929616958709 / 140737488355328) * (884279719003555 / 281474976710656))
           / 2 powr real_of_int (6 - 52))
        = 8625132073008048"
    by (rule rhe_near) (simp_all add: powr_minus)
qed (simp_all add: powr_minus)

lemma far_lat1:
  "f_div binary64 (Num (539070754563003 / 4398046511104))
       (Num 180)
     = Num (3066713625958417 / 4503599627370496)"
  unfolding b64_div
proof (rule round64_from_rhe[where e = "- 1" and k = "6133427251916834"])
  show "round_half_even
          (((539070754563003 / 4398046511104) / 180)
           / 2 powr real_of_int ((- 1) - 52))
        = 6133427251916834"
    by (rule rhe_near) (simp_all add: powr_minus)
qed (simp_all add: powr_minus)

lemma far_u2:
  "f_mul binary64 (Num (- 2745464808549723 / 70368744177664))
       (Num (884279719003555 / 281474976710656))
     = Num (- 4312566036614559 / 35184372088832)"
  unfolding b64_mul
proof (rule round64_from_rhe[where e = "6" and k = "- 8625132073229118"])
  show "round_half_even
          (((- 2745464808549723 / 70368744177664) * (884279719003555 / 281474976710656))
           / 2 powr real_of_int (6 - 52))
        = (- 8625132073229118)"
    by (rule rhe_near) (simp_all add: powr_minus)
qed (simp_all add: powr_minus)

lemma far_lat2:
  "f_div binary64 (Num (- 4312566036614559 / 35184372088832))
       (Num 180)
     = Num (- 6133427252074039 / 9007199254740992)"
  unfolding b64_div
proof (rule round64_from_rhe[where e = "- 1" and k = "- 6133427252074039"])
  show "round_half_even
          (((- 4312566036614559 / 35184372088832) / 180)
           / 2 powr real_of_int ((- 1) - 52))
        = (- 6133427252074039)"
    by (rule rhe_near) (simp_all add: powr_minus)
qed (simp_all add: powr_minus)

lemma far_p1:
  "f_mul binary64 (Num (- 5670295578428945 / 9007199254740992))
       (Num (- 5670295578428945 / 9007199254740992))
     = Num (892404260120795 / 2251799813685248)"
  unfolding b64_mul
proof (rule round64_from_rhe[where e = "- 2" and k = "7139234080966360"])
  show "round_half_even
          (((- 5670295578428945 / 9007199254740992) * (- 5670295578428945 / 9007199254740992))
           / 2 powr real_of_int ((- 2) - 52))
        = 7139234080966360"
    by (rule rhe_near) (simp_all add: powr_minus)
qed (simp_all add: powr_minus)

lemma far_p2:
  "f_mul binary64 (Num (6998384561350459 / 9007199254740992))
       (Num (3499192280625747 / 4503599627370496))
     = Num (5437582214257815 / 9007199254740992)"
  unfolding b64_mul
proof (rule round64_from_rhe[where e = "- 1" and k = "5437582214257815"])
  show "round_half_even
          (((6998384561350459 / 9007199254740992) * (3499192280625747 / 4503599627370496))
           / 2 powr real_of_int ((- 1) - 52))
        = 5437582214257815"
    by (rule rhe_near) (simp_all add: powr_minus)
qed (simp_all add: powr_minus)

lemma far_p3:
  "f_mul binary64 (Num (5437582214257815 / 9007199254740992))
       (Num 1)
     = Num (5437582214257815 / 9007199254740992)"
  unfolding b64_mul
proof (rule round64_from_rhe[where e = "- 1" and k = "5437582214257815"])
  show "round_half_even
          (((5437582214257815 / 9007199254740992) * 1)
           / 2 powr real_of_int ((- 1) - 52))
        = 5437582214257815"
    by (rule rhe_near) (simp_all add: powr_minus)
qed (simp_all add: powr_minus)

lemma far_p4:
  "f_mul binary64 (Num (5437582214257815 / 9007199254740992))
       (Num 1)
     = Num (5437582214257815 / 9007199254740992)"
  unfolding b64_mul
proof (rule round64_from_rhe[where e = "- 1" and k = "5437582214257815"])
  show "round_half_even
          (((5437582214257815 / 9007199254740992) * 1)
           / 2 powr real_of_int ((- 1) - 52))
        = 5437582214257815"
    by (rule rhe_near) (simp_all add: powr_minus)
qed (simp_all add: powr_minus)

lemma far_h:
  "f_add binary64 (Num (892404260120795 / 2251799813685248))
       (Num (5437582214257815 / 9007199254740992))
     = Num (2251799813685249 / 2251799813685248)"
  unfolding b64_add
proof (rule round64_from_rhe[where e = "0" and k = "4503599627370498"])
  show "round_half_even
          (((892404260120795 / 2251799813685248) + (5437582214257815 / 9007199254740992))
           / 2 powr real_of_int (0 - 52))
        = 4503599627370498"
    by (rule rhe_tie[where f = "4503599627370497"]) (simp_all add: powr_minus)
qed (simp_all add: powr_minus)

lemma far_sqrt:
  "m_sqrt binary64 (Num (2251799813685249 / 2251799813685248))
     = Num (4503599627370497 / 4503599627370496)"
proof -
  let ?h = "2251799813685249 / 2251799813685248 :: real"
  have lo: "4503599627370496.5 / 4503599627370496 < sqrt ?h"
    by (rule real_less_rsqrt) (simp add: power2_eq_square)
  have hi: "sqrt ?h < 4503599627370497.5 / 4503599627370496"
    by (rule real_less_lsqrt) (simp_all add: power2_eq_square)
  have one: "1 \<le> sqrt ?h" by simp
  have r: "round64 (sqrt ?h) = Num (4503599627370497 / 4503599627370496)"
  proof (rule round64_from_rhe[where e = 0 and k = 4503599627370497])
    show "round_half_even (sqrt ?h / 2 powr real_of_int (0 - 52)) = 4503599627370497"
      using lo hi by (intro rhe_near) (simp_all add: powr_minus field_simps)
    show "2 powr real_of_int 0 \<le> \<bar>sqrt ?h\<bar>" using one by simp
    show "\<bar>sqrt ?h\<bar> < 2 powr real_of_int (0 + 1)" using hi by simp
  qed (simp_all add: powr_minus)
  show ?thesis
    by (simp add: binary64_def r)
qed

text \<open>
  Claim C9 says that for all coordinates \<open>a\<close> and \<open>b\<close> the distance of \<open>a\<close> from
  itself is 0, the distance from \<open>a\<close> to \<open>b\<close> equals that from \<open>b\<close> to \<open>a\<close>, and
  the distance is never negative. The code computes on doubles, and there it does
  otherwise at the points \<open>far_a\<close> and \<open>far_b\<close>. The rounded sum \<^verbatim>\<open>h\<close> is
  \<^verbatim>\<open>1.0000000000000004\<close>, above 1, and its square root is
  \<^verbatim>\<open>1.0000000000000002\<close>; the source hands it to \<^verbatim>\<open>Math.asin\<close> as it is, and the
  distance is \<^verbatim>\<open>NaN\<close>. So the distance is not at least 0, and it is not equal to the
  distance taken the other way.
\<close>

theorem haversineMeters_nan_run:
  assumes ar: "ieee_arith m" and dom: "asin_domain m" and tr: "trig_recorded m"
  shows "haversine_h m far_a far_b = Num (2251799813685249 / 2251799813685248) \<and>
         m_sqrt m (haversine_h m far_a far_b) = Num (4503599627370497 / 4503599627370496) \<and>
         haversineMeters m far_a far_b = NaN \<and>
         \<not> js_le (Num 0) (haversineMeters m far_a far_b) \<and>
         \<not> js_eq (haversineMeters m far_a far_b) (haversineMeters m far_b far_a)"
proof -
  have ops: "f_add m = f_add binary64" "f_sub m = f_sub binary64" "f_mul m = f_mul binary64"
    "f_div m = f_div binary64" "m_sqrt m = m_sqrt binary64"
    using ar by (simp_all add: ieee_arith_def)
  have pts: "lat far_a = 5490929616958709 / 140737488355328" "lng far_a = - 90"
    "lat far_b = - 2745464808549723 / 70368744177664" "lng far_b = 90"
    by (simp_all add: far_a_def far_b_def)
  have sins: "m_sin m (Num (- 3066713625997719 / 4503599627370496))
        = Num (- 5670295578428945 / 9007199254740992)"
    "m_sin m (Num (884279719003555 / 562949953421312)) = Num 1"
    and coss: "m_cos m (Num (3066713625958417 / 4503599627370496))
        = Num (6998384561350459 / 9007199254740992)"
    "m_cos m (Num (- 6133427252074039 / 9007199254740992))
        = Num (3499192280625747 / 4503599627370496)"
    using tr by (simp_all add: trig_recorded_def)
  have h: "haversine_h m far_a far_b = Num (2251799813685249 / 2251799813685248)"
    unfolding haversine_h_def toRad_def Let_def ops pts Math_PI_def
    by (simp only: far_dlat0 far_t1 far_dLat far_hdLat far_dlng0 far_t2 far_dLng far_hdLng
        far_u1 far_lat1 far_u2 far_lat2 sins coss far_p1 far_p2 far_p3 far_p4 far_h)
  have r: "m_sqrt m (haversine_h m far_a far_b) = Num (4503599627370497 / 4503599627370496)"
    unfolding h ops by (rule far_sqrt)
  have "m_asin m (Num (4503599627370497 / 4503599627370496)) = NaN"
    using dom by (simp add: asin_domain_def)
  then have d: "haversineMeters m far_a far_b = NaN"
    unfolding haversineMeters_def r by (simp only: ops b64_mul_NaN)
  show ?thesis
    using h r d by simp
qed

text \<open>The hypotheses hold of the engine \<open>recorded_engine\<close>.\<close>

lemma recorded_engine_ok:
  "ieee_arith recorded_engine" "asin_domain recorded_engine" "trig_recorded recorded_engine"
  by (simp_all add: ieee_arith_def asin_domain_def trig_recorded_def recorded_engine_def binary64_def)

theorem haversineMeters_nan_run_witness:
  "ieee_arith recorded_engine \<and> asin_domain recorded_engine \<and> trig_recorded recorded_engine \<and>
   haversineMeters recorded_engine far_a far_b = NaN \<and>
   \<not> js_le (Num 0) (haversineMeters recorded_engine far_a far_b) \<and>
   \<not> js_eq (haversineMeters recorded_engine far_a far_b)
     (haversineMeters recorded_engine far_b far_a)"
  using haversineMeters_nan_run[OF recorded_engine_ok] recorded_engine_ok by simp

section \<open>Tiling engine: the grid policy\<close>

lemma computeGrid_cols_pos: "1 \<le> fst (computeGrid n)"
proof -
  have "1 \<le> sqrt (real_of_int (max 1 n))" by simp
  then have "1 \<le> \<lceil>sqrt (real_of_int (max 1 n))\<rceil>"
    by (simp add: le_ceiling_iff)
  then show ?thesis by (simp add: computeGrid_def Let_def)
qed

lemma computeGrid_covers: "n \<le> fst (computeGrid n) * snd (computeGrid n)"
proof -
  define s where "s = max 1 n"
  define c where "c = fst (computeGrid n)"
  define r where "r = snd (computeGrid n)"
  have c: "1 \<le> c" unfolding c_def by (rule computeGrid_cols_pos)
  have r: "r = \<lceil>real_of_int s / real_of_int c\<rceil>"
    by (simp add: r_def c_def s_def computeGrid_def Let_def)
  have "real_of_int s / of_int c \<le> of_int r" unfolding r by (rule le_of_int_ceiling)
  then have "real_of_int s \<le> of_int r * of_int c"
    using c by (simp add: pos_divide_le_eq)
  then have "real_of_int s \<le> of_int (c * r)" by (simp add: mult.commute)
  then have "s \<le> c * r" by linarith
  moreover have "n \<le> s" by (simp add: s_def)
  ultimately show ?thesis unfolding c_def r_def by linarith
qed

lemma computeGrid_eq_spec: "1 \<le> n \<Longrightarrow> computeGrid n = computeGrid_spec n"
  by (simp add: computeGrid_def computeGrid_spec_def Let_def max_def)

lemma sqrt9: "\<lceil>sqrt 9\<rceil> = (3::int)"
proof -
  have "sqrt 9 = sqrt (3\<^sup>2)" by simp
  also have "\<dots> = 3" by (simp only: real_sqrt_abs)
  finally show ?thesis by simp
qed

lemma sqrt10: "\<lceil>sqrt 10\<rceil> = (4::int)"
proof -
  have "(3::real)\<^sup>2 < 10" by simp
  then have lo: "3 < sqrt 10" by (rule real_less_rsqrt)
  have "(10::real) \<le> 4\<^sup>2" by simp
  then have hi: "sqrt 10 \<le> 4" by (simp add: real_le_lsqrt)
  show ?thesis using lo hi by (simp add: ceiling_eq_iff)
qed

lemma computeGrid_9: "computeGrid 9 = (3, 3)"
  by (simp add: computeGrid_def Let_def sqrt9)

lemma computeGrid_10: "computeGrid 10 = (4, 3)"
proof -
  have "\<lceil>(10::real) / 4\<rceil> = 3" by (simp add: ceiling_eq_iff)
  then show ?thesis by (simp add: computeGrid_def Let_def sqrt10)
qed

lemma computeGrid_0: "computeGrid 0 = (1, 1)"
  by (simp add: computeGrid_def Let_def)

lemma computeGrid_spec_0: "computeGrid_spec 0 = (1, 0)"
  by (simp add: computeGrid_spec_def Let_def)

text \<open>
  Claim C3, as the code has it. For every integer \<open>n\<close>, \<open>computeGrid n\<close> returns
  \<open>cols = \<lceil>sqrt (max 1 n)\<rceil>\<close> and \<open>rows = \<lceil>max 1 n / cols\<rceil>\<close> (the clamped count is
  used for the rows too); for \<open>n \<ge> 1\<close> this is the policy in the words of the
  specification; \<open>cols * rows \<ge> n\<close>; and \<open>computeGrid 9 = (3, 3)\<close>,
  \<open>computeGrid 10 = (4, 3)\<close>.
\<close>

theorem computeGrid_policy:
  "fst (computeGrid n) = \<lceil>sqrt (real_of_int (max 1 n))\<rceil> \<and>
   snd (computeGrid n) = \<lceil>real_of_int (max 1 n) / real_of_int (fst (computeGrid n))\<rceil> \<and>
   (1 \<le> n \<longrightarrow> computeGrid n = computeGrid_spec n) \<and>
   n \<le> fst (computeGrid n) * snd (computeGrid n) \<and>
   computeGrid 9 = (3, 3) \<and> computeGrid 10 = (4, 3)"
proof -
  have a: "fst (computeGrid n) = \<lceil>sqrt (real_of_int (max 1 n))\<rceil>"
    by (simp add: computeGrid_def Let_def)
  have b: "snd (computeGrid n) = \<lceil>real_of_int (max 1 n) / real_of_int (fst (computeGrid n))\<rceil>"
    by (simp add: computeGrid_def Let_def)
  show ?thesis
    using a b computeGrid_eq_spec[of n] computeGrid_covers[of n] computeGrid_9 computeGrid_10
    by blast
qed

theorem computeGrid_policy_witness:
  "(1::int) \<le> 6 \<and> computeGrid 6 = computeGrid_spec 6 \<and>
   6 \<le> fst (computeGrid 6) * snd (computeGrid 6) \<and> computeGrid 9 = (3, 3)"
proof -
  have h: "(1::int) \<le> 6" by simp
  from computeGrid_policy[of 6] h show ?thesis by blast
qed

text \<open>
  The claim as written fails at a piece count of 0, which \<^verbatim>\<open>handlePuzzleUpload\<close>
  passes when an image is uploaded before any piece exists: the code returns one row,
  \<^verbatim>\<open>ceil(pieceCount / cols)\<close> is 0.
\<close>

theorem computeGrid_zero_counterexample:
  "computeGrid 0 = (1, 1) \<and> computeGrid_spec 0 = (1, 0) \<and> computeGrid 0 \<noteq> computeGrid_spec 0"
  by (simp add: computeGrid_0 computeGrid_spec_0)

section \<open>Tiling engine: slicing\<close>

text \<open>
  Both loops keep the invariant that \<^verbatim>\<open>piecesOut\<close> holds the expected fragments of the
  positions before \<open>r * ncols + c\<close> and that \<^verbatim>\<open>order\<close> is one more than that number.
\<close>

lemma sliceCols_inv:
  assumes "0 \<le> r" "0 \<le> c" "c \<le> ncols"
  shows "sliceCols enc im tileW tileH ncols r c
           (r * ncols + c + 1, map (tile_at enc im tileW tileH ncols) [0..<nat (r * ncols + c)])
         = ((r + 1) * ncols + 1, map (tile_at enc im tileW tileH ncols) [0..<nat ((r + 1) * ncols)])"
  using assms
proof (induction "nat (ncols - c)" arbitrary: c)
  case 0
  then have "c = ncols" by simp
  then show ?case by (simp add: sliceCols.simps algebra_simps)
next
  case (Suc m)
  then have lt: "c < ncols" by linarith
  have k0: "0 \<le> r * ncols + c" using Suc.prems lt by simp
  have nk: "nat (r * ncols + (c + 1)) = Suc (nat (r * ncols + c))"
    using k0 by (simp add: nat_add_distrib add.assoc)
  have md: "(r * ncols + c) mod ncols = c" "(r * ncols + c) div ncols = r"
    using Suc.prems lt by simp_all
  have t: "tile_at enc im tileW tileH ncols (nat (r * ncols + c))
           = \<lparr>frag_order = r * ncols + c + 1,
              fragment = enc im (c * tileW) (r * tileH) tileW tileH\<rparr>"
    using k0 md by (simp add: tile_at_def)
  have IH: "sliceCols enc im tileW tileH ncols r (c + 1)
           (r * ncols + (c + 1) + 1, map (tile_at enc im tileW tileH ncols) [0..<nat (r * ncols + (c + 1))])
         = ((r + 1) * ncols + 1, map (tile_at enc im tileW tileH ncols) [0..<nat ((r + 1) * ncols)])"
    using Suc.hyps(2) Suc.prems lt by (intro Suc.hyps(1)) simp_all
  show ?case
    using lt IH
    by (subst sliceCols.simps) (simp add: nk t add.assoc)
qed

lemma sliceRows_inv:
  assumes "0 \<le> r" "r \<le> nrows" "0 \<le> ncols"
  shows "sliceRows enc im tileW tileH ncols nrows r
           (r * ncols + 1, map (tile_at enc im tileW tileH ncols) [0..<nat (r * ncols)])
         = map (tile_at enc im tileW tileH ncols) [0..<nat (nrows * ncols)]"
  using assms
proof (induction "nat (nrows - r)" arbitrary: r)
  case 0
  then have "r = nrows" by simp
  then show ?case by (simp add: sliceRows.simps)
next
  case (Suc m)
  then have lt: "r < nrows" by linarith
  have c: "sliceCols enc im tileW tileH ncols r 0
           (r * ncols + 1, map (tile_at enc im tileW tileH ncols) [0..<nat (r * ncols)])
         = ((r + 1) * ncols + 1, map (tile_at enc im tileW tileH ncols) [0..<nat ((r + 1) * ncols)])"
    using sliceCols_inv[of r 0 ncols enc im tileW tileH] Suc.prems by simp
  have IH: "sliceRows enc im tileW tileH ncols nrows (r + 1)
           ((r + 1) * ncols + 1, map (tile_at enc im tileW tileH ncols) [0..<nat ((r + 1) * ncols)])
         = map (tile_at enc im tileW tileH ncols) [0..<nat (nrows * ncols)]"
    using Suc.hyps(2) Suc.prems lt by (intro Suc.hyps(1)) simp_all
  show ?case
    using lt IH by (subst sliceRows.simps) (simp add: c)
qed

lemma sliceImage_tiles:
  assumes "0 \<le> ncols" "0 \<le> nrows" "decodeImage env dataUrl = Some (w, h)"
  shows "sliceImage env dataUrl ncols nrows =
           Inr (map (tile_at (toDataURL env) \<lparr>img_src = dataUrl, img_width = w, img_height = h\<rparr>
                       (w div ncols) (h div nrows) ncols) [0..<nat (ncols * nrows)])"
  using sliceRows_inv[of 0 nrows ncols "toDataURL env" _ "w div ncols" "h div nrows"] assms
  by (simp add: sliceImage_def mult.commute)

lemma upt9: "[0..<9] = [0,1,2,3,4,5,6,7,8::nat]"
  by (simp add: upt_rec)


text \<open>
  Claim C4. For positive \<open>ncols\<close> and \<open>nrows\<close> and an image that decodes to \<open>w\<close> by
  \<open>h\<close> pixels, \<open>sliceImage\<close> resolves with exactly \<open>ncols * nrows\<close> fragments; the
  fragment at row-major position \<open>k\<close> has order \<open>k + 1\<close> and is the tile of
  \<open>w div ncols\<close> by \<open>h div nrows\<close> pixels cut at column \<open>k mod ncols\<close> and row
  \<open>k div ncols\<close>. A 300 by 300 image with a 3 by 3 grid gives nine tiles of 100 by 100,
  the top left one first.
\<close>

theorem sliceImage_row_major:
  assumes "0 < ncols" and "0 < nrows" and "decodeImage env dataUrl = Some (w, h)"
  shows "\<exists>fs. sliceImage env dataUrl ncols nrows = Inr fs \<and>
           length fs = nat (ncols * nrows) \<and>
           (\<forall>k < length fs.
              frag_order (fs ! k) = int k + 1 \<and>
              fragment (fs ! k) =
                toDataURL env \<lparr>img_src = dataUrl, img_width = w, img_height = h\<rparr>
                  ((int k mod ncols) * (w div ncols)) ((int k div ncols) * (h div nrows))
                  (w div ncols) (h div nrows)) \<and>
           (ncols = 3 \<and> nrows = 3 \<and> w = 300 \<and> h = 300 \<longrightarrow>
              map frag_order fs = [1, 2, 3, 4, 5, 6, 7, 8, 9] \<and>
              map fragment fs =
                map (\<lambda>(sx, sy). toDataURL env \<lparr>img_src = dataUrl, img_width = 300, img_height = 300\<rparr>
                                   sx sy 100 100)
                  [(0, 0), (100, 0), (200, 0),
                   (0, 100), (100, 100), (200, 100),
                   (0, 200), (100, 200), (200, 200)])"
proof -
  let ?im = "\<lparr>img_src = dataUrl, img_width = w, img_height = h\<rparr>"
  let ?fs = "map (tile_at (toDataURL env) ?im (w div ncols) (h div nrows) ncols)
               [0..<nat (ncols * nrows)]"
  have run: "sliceImage env dataUrl ncols nrows = Inr ?fs"
    using assms by (intro sliceImage_tiles) simp_all
  have len: "length ?fs = nat (ncols * nrows)" by simp
  have nth: "\<forall>k < length ?fs.
              frag_order (?fs ! k) = int k + 1 \<and>
              fragment (?fs ! k) =
                toDataURL env ?im
                  ((int k mod ncols) * (w div ncols)) ((int k div ncols) * (h div nrows))
                  (w div ncols) (h div nrows)"
    by (simp add: tile_at_def)
  have inst: "ncols = 3 \<and> nrows = 3 \<and> w = 300 \<and> h = 300 \<longrightarrow>
              map frag_order ?fs = [1, 2, 3, 4, 5, 6, 7, 8, 9] \<and>
              map fragment ?fs =
                map (\<lambda>(sx, sy). toDataURL env \<lparr>img_src = dataUrl, img_width = 300, img_height = 300\<rparr>
                                   sx sy 100 100)
                  [(0, 0), (100, 0), (200, 0),
                   (0, 100), (100, 100), (200, 100),
                   (0, 200), (100, 200), (200, 200)]"
  proof
    assume e: "ncols = 3 \<and> nrows = 3 \<and> w = 300 \<and> h = 300"
    have "nat (3 * 3) = 9" by simp
    with e show "map frag_order ?fs = [1, 2, 3, 4, 5, 6, 7, 8, 9] \<and>
              map fragment ?fs =
                map (\<lambda>(sx, sy). toDataURL env \<lparr>img_src = dataUrl, img_width = 300, img_height = 300\<rparr>
                                   sx sy 100 100)
                  [(0, 0), (100, 0), (200, 0),
                   (0, 100), (100, 100), (200, 100),
                   (0, 200), (100, 200), (200, 200)]"
      by (simp add: upt9 tile_at_def)
  qed
  show ?thesis
    using run len nth inst by (intro exI[of _ ?fs] conjI)
qed

theorem sliceImage_row_major_witness:
  "(0::int) < 3 \<and> decodeImage example_browser ''data:demo'' = Some (300, 300) \<and>
   (\<exists>fs. sliceImage example_browser ''data:demo'' 3 3 = Inr fs \<and>
      length fs = 9 \<and>
      map frag_order fs = [1, 2, 3, 4, 5, 6, 7, 8, 9] \<and>
      map fragment fs =
        [''top-left'', ''other'', ''other'', ''other'', ''other'', ''other'', ''other'',
         ''other'', ''other''])"
proof -
  have d: "decodeImage example_browser ''data:demo'' = Some (300, 300)"
    by (simp add: example_browser_def)
  have t: "toDataURL example_browser im sx sy sw sh =
             (if sx = 0 \<and> sy = 0 then ''top-left'' else ''other'')" for im sx sy sw sh
    by (simp add: example_browser_def)
  obtain fs where fs: "sliceImage example_browser ''data:demo'' 3 3 = Inr fs"
      "length fs = nat (3 * 3)"
      "map frag_order fs = [1, 2, 3, 4, 5, 6, 7, 8, 9]"
      "map fragment fs =
         map (\<lambda>(sx, sy). toDataURL example_browser
                \<lparr>img_src = ''data:demo'', img_width = 300, img_height = 300\<rparr> sx sy 100 100)
           [(0, 0), (100, 0), (200, 0), (0, 100), (100, 100), (200, 100),
            (0, 200), (100, 200), (200, 200)]"
    using sliceImage_row_major[of 3 3 example_browser "''data:demo''" 300 300, OF _ _ d]
    by auto
  have "map fragment fs =
        [''top-left'', ''other'', ''other'', ''other'', ''other'', ''other'', ''other'',
         ''other'', ''other'']"
    unfolding fs(4) by (simp add: t)
  then show ?thesis using fs(1,2,3) d by simp
qed

section \<open>The concrete identifiers and states\<close>

lemma isUuid_examples:
  "isUuid route_A" "isUuid route_B" "isUuid piece_1" "isUuid piece_2" "isUuid piece_3" "isUuid piece_4"
  by (simp_all add: isUuid_def isHexDigit_def route_A_def route_B_def piece_1_def piece_2_def
       piece_3_def piece_4_def)

lemma not_isUuid_default: "\<not> isUuid ''route-1''" "\<not> isUuid ''''" "\<not> isUuid ''p1''"
  by (simp_all add: isUuid_def)

lemma examples_distinct:
  "route_A \<noteq> route_B" "piece_1 \<noteq> piece_2" "route_A \<noteq> []" "route_B \<noteq> []"
  by (simp_all add: route_A_def route_B_def piece_1_def piece_2_def)

lemma loaded_empty_A_eq:
  "loaded_empty_A = mounted_app\<lparr>route := \<lparr>route_id = route_A, route_name = ''Walk'', center = origin, radiusM = 800\<rparr>,
      selectedRouteId := route_A\<rparr>"
  by (simp add: loaded_empty_A_def loadRoute_def loadProgress_def Let_def route_row_of_def
      mounted_app_def initial_app_def isUuid_examples examples_distinct origin_def)

lemma loaded_A_eq:
  "loaded_A stored = mounted_app\<lparr>route := \<lparr>route_id = route_A, route_name = ''Walk'', center = origin, radiusM = 800\<rparr>,
      pieces := [\<lparr>lat = 0, lng = 0, piece_id = piece_1, piece_order = 1, imageFragmentUrl = []\<rparr>],
      collectedIds := filter (\<lambda>i. i = piece_1) stored,
      selectedRouteId := route_A\<rparr>"
  by (simp add: loaded_A_def loadRoute_def loadProgress_def Let_def route_row_of_def piece_row_of_def
      mounted_app_def initial_app_def isUuid_examples examples_distinct origin_def normalizePiece_def truthy_def)

lemma walking_A_eq:
  "walking_A =
     (loaded_A [])\<lparr>watchIdRef :=
        Some \<lparr>w_remaining = [\<lparr>lat = 0, lng = 0, piece_id = piece_1, piece_order = 1,
                               imageFragmentUrl = []\<rparr>],
              w_collectionRadius = 30\<rparr>\<rparr>"
  by (simp add: walking_A_def startWalk_def remaining_def orderedPieces_def loaded_A_eq
      mounted_app_def initial_app_def examples_distinct)

lemma walking_A_sample:
  "collectedIds (onPosition binary64 origin walking_A) = [piece_1]"
  by (simp add: walking_A_eq onPosition_def newlyCollected_def Let_def origin_def
      haversineMeters_origin new_Set_def loaded_A_eq mounted_app_def initial_app_def)

lemma legacy_A_eq:
  "legacy_A =
     (loaded_A [])\<lparr>pieces := [\<lparr>lat = 0, lng = 0, piece_id = ''p1'', piece_order = 1,
                                imageFragmentUrl = []\<rparr>],
        collectedIds := [''p1''], userPos := Some origin,
        watchIdRef :=
          Some \<lparr>w_remaining = [\<lparr>lat = 0, lng = 0, piece_id = ''p1'', piece_order = 1,
                                 imageFragmentUrl = []\<rparr>],
                w_collectionRadius = 30\<rparr>\<rparr>"
  by (simp add: legacy_A_def importRoute_def payload_A_def startWalk_def remaining_def
      orderedPieces_def onPosition_def newlyCollected_def Let_def origin_def
      haversineMeters_origin new_Set_def loaded_A_eq mounted_app_def initial_app_def examples_distinct)

lemma session_A_eq:
  "session_A =
     (loaded_A [])\<lparr>collectedIds := [piece_1], userPos := Some origin,
        upserts := [\<lparr>row_route_id = route_A, row_device_id = ''device-1'',
                     collected_piece_ids = [piece_1],
                     completed_at = Some ''2026-01-01T00:00:00.000Z'',
                     updated_at = ''2026-01-01T00:00:00.000Z''\<rparr>]\<rparr>"
proof -
  have w: "onPosition binary64 origin (startWalk True (loaded_A [])) =
             walking_A\<lparr>userPos := Some origin, collectedIds := [piece_1]\<rparr>"
    unfolding walking_A_def[symmetric]
    by (simp add: walking_A_eq onPosition_def newlyCollected_def Let_def origin_def
        haversineMeters_origin new_Set_def loaded_A_eq mounted_app_def initial_app_def)
  show ?thesis
    unfolding session_A_def w
    by (simp add: walking_A_eq saveEffect_def saveProgress_def stopWalk_def Let_def loaded_A_eq
        mounted_app_def initial_app_def isUuid_examples)
qed

lemma imported_A_eq:
  "imported_A =
     session_A\<lparr>selectedRouteId := route_B,
        watchIdRef :=
          Some \<lparr>w_remaining = [\<lparr>lat = 0, lng = 0, piece_id = piece_1, piece_order = 1,
                                 imageFragmentUrl = []\<rparr>],
                w_collectionRadius = 30\<rparr>\<rparr>"
  by (simp add: imported_A_def session_A_eq importRoute_def payload_A_def loadRoute_def
      loadProgress_def route_row_of_def piece_row_of_def normalizePiece_def truthy_def
      startWalk_def remaining_def orderedPieces_def onPosition_def newlyCollected_def Let_def
      origin_def haversineMeters_origin new_Set_def loaded_A_eq mounted_app_def initial_app_def
      isUuid_examples examples_distinct)

section \<open>Tiling engine: the cache of the slicing effect\<close>

lemma applyImageFragments_keeps:
  "sliceCalls (applyImageFragments fs st) = sliceCalls st"
  "lastSliceRef (applyImageFragments fs st) = lastSliceRef st"
  "puzzleImageUrl (applyImageFragments fs st) = puzzleImageUrl st"
  "length (pieces (applyImageFragments fs st)) = length (pieces st)"
  by (simp_all add: applyImageFragments_def)

lemma sliceKey_eq:
  "sliceKey st = (length (puzzleImageUrl st), length (pieces st), computeGrid (int (length (pieces st))))"
  by (simp add: sliceKey_def split: prod.split)

lemma sliceEffect_hit: "lastSliceRef st = Some (sliceKey st) \<Longrightarrow> sliceEffect env st = st"
  by (simp add: sliceEffect_def split: prod.split)

lemma sliceEffect_idle: "puzzleImageUrl st = [] \<or> pieces st = [] \<Longrightarrow> sliceEffect env st = st"
  by (auto simp: sliceEffect_def)

lemma sliceEffect_miss:
  assumes "puzzleImageUrl st \<noteq> []" "pieces st \<noteq> []" "lastSliceRef st \<noteq> Some (sliceKey st)"
  shows "sliceCalls (sliceEffect env st) =
           sliceCalls st @ [(puzzleImageUrl st, computeGrid (int (length (pieces st))))]"
    and "lastSliceRef (sliceEffect env st) = Some (sliceKey st)"
  using assms
  by (simp_all add: sliceEffect_def Let_def applyImageFragments_keeps split: prod.split sum.split)

lemma computeGrid_1: "computeGrid 1 = (1, 1)"
  by (simp add: computeGrid_def Let_def)

lemma slice_demo_1: "sliceImage example_browser ''data:demo'' 1 1 =
    Inr [\<lparr>frag_order = 1, fragment = ''top-left''\<rparr>]"
  by (simp add: sliceImage_def example_browser_def sliceRows.simps sliceCols.simps)

lemma pictured_A_eq:
  "pictured_A url (loaded_A []) = (loaded_A [])\<lparr>puzzleImageUrl := url\<rparr>"
  by (simp add: pictured_A_def importRoute_def payload_A_def loaded_A_eq mounted_app_def
      initial_app_def origin_def)

lemma sliced_A_eq:
  "sliced_A =
     (loaded_A [])\<lparr>puzzleImageUrl := ''data:demo'',
        pieces := [\<lparr>lat = 0, lng = 0, piece_id = piece_1, piece_order = 1,
                    imageFragmentUrl = ''top-left''\<rparr>],
        gridCols := 1, gridRows := 1, lastSliceRef := Some (9, 1, 1, 1),
        sliceCalls := [(''data:demo'', 1, 1)]\<rparr>"
  unfolding sliced_A_def pictured_A_eq
  by (simp add: sliceEffect_def sliceKey_def computeGrid_1 slice_demo_1
      applyImageFragments_def loaded_A_eq mounted_app_def initial_app_def)

lemma pictured_sliced_A_eq:
  "pictured_A url sliced_A =
     sliced_A\<lparr>puzzleImageUrl := url,
        pieces := [\<lparr>lat = 0, lng = 0, piece_id = piece_1, piece_order = 1,
                    imageFragmentUrl = []\<rparr>],
        gridCols := 3, gridRows := 3\<rparr>"
  by (simp add: pictured_A_def importRoute_def payload_A_def sliced_A_eq
      loaded_A_eq mounted_app_def initial_app_def origin_def)

text \<open>
  Claim C5 says that slicing is recomputed exactly when the triple of source image
  identity, piece count and resulting grid differs from the last computed one, so that
  any change of the image with the same piece count and grid triggers a recompute. The
  effect runs whenever \<^verbatim>\<open>puzzleImageUrl\<close> changes, but the key of its cache holds the
  length of the URL in place of the image, and a run of the code does otherwise than
  the claim. After the effect has sliced \<^verbatim>\<open>data:demo\<close>, the route is imported again
  with the image \<^verbatim>\<open>data:dem0\<close> and the same piece count: the effect finds the key of
  the last slicing and slices nothing, and the piece stays without a fragment of the new
  image. An image whose URL has another length, \<^verbatim>\<open>data:demo2\<close>, is sliced.
\<close>

theorem same_length_image_run:
  "puzzleImageUrl sliced_A = ''data:demo'' \<and>
   puzzleImageUrl repictured_A = ''data:dem0'' \<and>
   length (pieces repictured_A) = length (pieces sliced_A) \<and>
   sliceEffect example_browser repictured_A = repictured_A \<and>
   sliceCalls repictured_A = [(''data:demo'', 1, 1)] \<and>
   map imageFragmentUrl (pieces repictured_A) = [[]] \<and>
   sliceCalls (sliceEffect example_browser (pictured_A ''data:demo2'' sliced_A))
     = [(''data:demo'', 1, 1), (''data:demo2'', 1, 1)]"
proof -
  have r: "repictured_A =
     sliced_A\<lparr>puzzleImageUrl := ''data:dem0'',
        pieces := [\<lparr>lat = 0, lng = 0, piece_id = piece_1, piece_order = 1,
                    imageFragmentUrl = []\<rparr>],
        gridCols := 3, gridRows := 3\<rparr>"
    unfolding repictured_A_def by (rule pictured_sliced_A_eq)
  have k: "lastSliceRef repictured_A = Some (sliceKey repictured_A)"
    by (simp add: r sliced_A_eq sliceKey_eq computeGrid_1)
  have hit: "sliceEffect example_browser repictured_A = repictured_A"
    using k by (rule sliceEffect_hit)
  let ?s = "pictured_A ''data:demo2'' sliced_A"
  have s: "puzzleImageUrl ?s = ''data:demo2''" "length (pieces ?s) = 1" "pieces ?s \<noteq> []"
    "lastSliceRef ?s = Some (9, 1, 1, 1)" "sliceCalls ?s = [(''data:demo'', 1, 1)]"
    unfolding pictured_sliced_A_eq by (simp_all add: sliced_A_eq)
  have "lastSliceRef ?s \<noteq> Some (sliceKey ?s)"
    by (simp add: s sliceKey_eq)
  then have miss: "sliceCalls (sliceEffect example_browser ?s)
      = [(''data:demo'', 1, 1), (''data:demo2'', 1, 1)]"
    using sliceEffect_miss(1)[of ?s example_browser] by (simp add: s computeGrid_1)
  show ?thesis
    using miss by (simp add: hit) (simp add: r sliced_A_eq)
qed

section \<open>Progress synchroniser\<close>

lemma saveProgress_blocked:
  "deviceId st = [] \<or> \<not> isUuid (route_id (route st)) \<or> route_id (route st) \<noteq> selectedRouteId st
     \<Longrightarrow> saveProgress now err ids st = st"
  by (auto simp: saveProgress_def)

lemma saveProgress_upserts:
  assumes "deviceId st \<noteq> []" "isUuid (route_id (route st))" "route_id (route st) = selectedRouteId st"
  shows "upserts (saveProgress now err ids st) =
           upserts st @
             [\<lparr>row_route_id = route_id (route st), row_device_id = deviceId st,
               collected_piece_ids = filter isUuid ids,
               completed_at =
                 (if 0 < length (pieces st) \<and> length (filter isUuid ids) = length (pieces st)
                  then Some now else None),
               updated_at = now\<rparr>]"
  using assms by (simp add: saveProgress_def Let_def split: option.split)

lemma saveProgress_local:
  "collectedIds (saveProgress now err ids st) = collectedIds st"
  "pieces (saveProgress now err ids st) = pieces st"
  by (simp_all add: saveProgress_def Let_def split: option.split)

text \<open>
  Claim C10. \<open>saveProgress\<close> returns the state as it was, with no upsert sent, whenever
  the device id is empty, the route id is not a UUID, or the route id is not the selected
  one. That is the case for the built-in default route and for a route made by
  \<open>newRoute\<close>, whatever identifier it got and whatever was selected before.
\<close>

theorem saveProgress_guard:
  "(deviceId st = [] \<or> \<not> isUuid (route_id (route st)) \<or> route_id (route st) \<noteq> selectedRouteId st
      \<longrightarrow> saveProgress now err ids st = st) \<and>
   saveProgress now err ids (st\<lparr>route := DEFAULT_ROUTE\<rparr>) = st\<lparr>route := DEFAULT_ROUTE\<rparr> \<and>
   saveProgress now err ids (newRoute newId st) = newRoute newId st"
proof -
  have d: "\<not> isUuid (route_id (route (st\<lparr>route := DEFAULT_ROUTE\<rparr>)))"
    by (simp add: DEFAULT_ROUTE_def not_isUuid_default)
  have n: "\<not> isUuid (route_id (route (newRoute newId st))) \<or>
           route_id (route (newRoute newId st)) \<noteq> selectedRouteId (newRoute newId st)"
  proof (cases "newId = []")
    case True
    then show ?thesis by (simp add: newRoute_def not_isUuid_default)
  next
    case False
    then show ?thesis by (simp add: newRoute_def)
  qed
  show ?thesis
    using saveProgress_blocked[of st now err ids]
      saveProgress_blocked[of "st\<lparr>route := DEFAULT_ROUTE\<rparr>" now err ids] d
      saveProgress_blocked[of "newRoute newId st" now err ids] n
    by blast
qed

theorem saveProgress_guard_witness:
  "\<not> isUuid (route_id (route mounted_app)) \<and>
   saveProgress ''2026-01-01T00:00:00.000Z'' None [piece_1] mounted_app = mounted_app \<and>
   upserts (saveProgress ''2026-01-01T00:00:00.000Z'' None [piece_1] (newRoute route_B (loaded_A [piece_1]))) = []"
proof -
  have g: "\<not> isUuid (route_id (route mounted_app))"
    by (simp add: mounted_app_def initial_app_def DEFAULT_ROUTE_def not_isUuid_default)
  have u: "upserts (newRoute route_B (loaded_A [piece_1])) = []"
    by (simp add: newRoute_def loaded_A_eq mounted_app_def initial_app_def)
  show ?thesis
    using saveProgress_guard[of mounted_app "''2026-01-01T00:00:00.000Z''" None "[piece_1]" route_B]
      saveProgress_guard[of "loaded_A [piece_1]" "''2026-01-01T00:00:00.000Z''" None "[piece_1]" route_B]
      g u
    by simp
qed

text \<open>
  Claim C7, as the code has it. When \<open>saveProgress\<close> writes, the row carries the
  collected ids that are UUIDs and nothing else, the update time \<open>now\<close>, and a
  completion time that is \<open>now\<close> exactly when there is at least one piece and the number of
  ids that are UUIDs (not the number of ids handed in) equals the number of pieces, and
  null otherwise. When every id handed in is a UUID the two numbers agree.
\<close>

theorem saveProgress_row:
  assumes "deviceId st \<noteq> []" and "isUuid (route_id (route st))"
    and "route_id (route st) = selectedRouteId st"
  shows "\<exists>row. upserts (saveProgress now err ids st) = upserts st @ [row] \<and>
           row_route_id row = route_id (route st) \<and> row_device_id row = deviceId st \<and>
           collected_piece_ids row = filter isUuid ids \<and>
           list_all isUuid (collected_piece_ids row) \<and>
           updated_at row = now \<and>
           (completed_at row = Some now \<or> completed_at row = None) \<and>
           (completed_at row = Some now \<longleftrightarrow>
              0 < length (pieces st) \<and> length (filter isUuid ids) = length (pieces st)) \<and>
           (list_all isUuid ids \<longrightarrow>
              (completed_at row = Some now \<longleftrightarrow>
                 0 < length (pieces st) \<and> length ids = length (pieces st)))"
proof -
  have f: "list_all isUuid ids \<longrightarrow> filter isUuid ids = ids"
    by (simp add: list_all_iff)
  show ?thesis
    using f
    by (simp add: saveProgress_upserts[OF assms] list_all_iff)
qed

theorem saveProgress_row_witness:
  "deviceId (loaded_A []) \<noteq> [] \<and> isUuid (route_id (route (loaded_A []))) \<and>
   route_id (route (loaded_A [])) = selectedRouteId (loaded_A []) \<and>
   (\<exists>row. upserts (saveProgress ''2026-01-01T00:00:00.000Z'' None [piece_1, ''p9''] (loaded_A [])) = [row] \<and>
      collected_piece_ids row = [piece_1] \<and>
      completed_at row = Some ''2026-01-01T00:00:00.000Z'' \<and>
      updated_at row = ''2026-01-01T00:00:00.000Z'')"
proof -
  have a: "deviceId (loaded_A []) \<noteq> []" "isUuid (route_id (route (loaded_A [])))"
    "route_id (route (loaded_A [])) = selectedRouteId (loaded_A [])"
    by (simp_all add: loaded_A_eq mounted_app_def initial_app_def isUuid_examples)
  have p: "pieces (loaded_A []) = [\<lparr>lat = 0, lng = 0, piece_id = piece_1, piece_order = 1, imageFragmentUrl = []\<rparr>]"
    "upserts (loaded_A []) = []"
    by (simp_all add: loaded_A_eq mounted_app_def initial_app_def)
  have n: "\<not> isUuid ''p9''"
    by (simp add: isUuid_def)
  show ?thesis
    using saveProgress_row[OF a, of "''2026-01-01T00:00:00.000Z''" None "[piece_1, ''p9'']"] a
    by (auto simp: p n isUuid_examples)
qed

text \<open>
  The claim as written fails for a collected set that holds an id which is not a UUID.
  In \<open>legacy_A\<close> the one piece of the route is collected, and the row the saving
  effect writes has a null completion time.
\<close>

theorem saveProgress_legacy_counterexample:
  "collectedIds legacy_A = [''p1''] \<and>
   length (collectedIds legacy_A) = length (pieces legacy_A) \<and> 0 < length (pieces legacy_A) \<and>
   map completed_at
     (upserts (saveEffect ''2026-01-01T00:00:00.000Z'' None legacy_A)) = [None]"
  by (simp add: saveEffect_def saveProgress_def legacy_A_eq loaded_A_eq mounted_app_def
      initial_app_def isUuid_examples not_isUuid_default Let_def)

section \<open>Collection engine: growth and reset\<close>

lemma set_set_add_all: "set (set_add_all acc xs) = set acc \<union> set xs"
  by (induction xs arbitrary: acc) auto

lemma set_new_Set: "set (new_Set xs) = set xs"
  by (simp add: new_Set_def set_set_add_all)

lemma distinct_set_add_all: "distinct acc \<Longrightarrow> distinct (set_add_all acc xs)"
  by (induction xs arbitrary: acc) auto

lemma distinct_new_Set: "distinct (new_Set xs)"
  by (simp add: new_Set_def distinct_set_add_all)

lemma coord_rebuild: "\<lparr>lat = lat pos, lng = lng pos\<rparr> = (pos :: coord)"
  by (cases pos) simp

lemma onPosition_union:
  "watchIdRef st = Some w \<Longrightarrow>
     set (collectedIds (onPosition m pos st)) = set (collectedIds st) \<union> set (newlyCollected m w pos)"
  by (auto simp: onPosition_def Let_def set_new_Set coord_rebuild)

lemma onPosition_mono: "set (collectedIds st) \<subseteq> set (collectedIds (onPosition m pos st))"
proof (cases "watchIdRef st")
  case None
  then show ?thesis by (simp add: onPosition_def)
next
  case (Some w)
  then show ?thesis by (simp add: onPosition_union)
qed

lemma fold_onPosition_mono:
  "set (collectedIds st) \<subseteq> set (collectedIds (fold (onPosition m) samples st))"
proof (induction samples arbitrary: st)
  case Nil
  then show ?case by simp
next
  case (Cons pos samples)
  have "set (collectedIds st) \<subseteq> set (collectedIds (onPosition m pos st))"
    by (rule onPosition_mono)
  also have "\<dots> \<subseteq> set (collectedIds (fold (onPosition m) samples (onPosition m pos st)))"
    by (rule Cons.IH)
  finally show ?case by simp
qed

lemma onPosition_keeps:
  "deviceId (onPosition m pos st) = deviceId st"
  "route (onPosition m pos st) = route st"
  "selectedRouteId (onPosition m pos st) = selectedRouteId st"
  "upserts (onPosition m pos st) = upserts st"
  "pieces (onPosition m pos st) = pieces st"
  "watchIdRef (onPosition m pos st) = watchIdRef st"
  by (simp_all add: onPosition_def Let_def split: option.split)

lemma resetProgress_empty: "collectedIds (resetProgress now err st) = []"
  by (simp add: resetProgress_def saveProgress_local)

lemma resetProgress_writes:
  assumes "deviceId st \<noteq> []" "isUuid (route_id (route st))" "route_id (route st) = selectedRouteId st"
  shows "upserts (resetProgress now err st) =
           upserts st @
             [\<lparr>row_route_id = route_id (route st), row_device_id = deviceId st,
               collected_piece_ids = [], completed_at = None, updated_at = now\<rparr>]"
  using assms
    saveProgress_upserts[of "st\<lparr>collectedIds := []\<rparr>" now err "[]"]
  by (simp add: resetProgress_def)

lemma resetProgress_blocked:
  assumes "deviceId st = [] \<or> \<not> isUuid (route_id (route st)) \<or> route_id (route st) \<noteq> selectedRouteId st"
  shows "upserts (resetProgress now err st) = upserts st"
  using assms saveProgress_blocked[of "st\<lparr>collectedIds := []\<rparr>" now err "[]"]
  by (auto simp: resetProgress_def)

text \<open>
  Claim C2, as the code has it. Position samples only add to the collected ids: one
  sample leaves the set the union of what it was and the ids the callback found, and any
  sequence of samples leaves a superset. After \<open>resetProgress\<close> the collected ids are
  empty whatever they were. The empty set is sent to the \<^verbatim>\<open>progress\<close> table when the
  device id is set and the route id is a UUID and the selected one; otherwise
  \<open>resetProgress\<close> sends nothing.
\<close>

theorem collected_grows_and_resets:
  "set (collectedIds st) \<subseteq> set (collectedIds (onPosition m pos st)) \<and>
   (\<forall>w. watchIdRef st = Some w \<longrightarrow>
      set (collectedIds (onPosition m pos st)) = set (collectedIds st) \<union> set (newlyCollected m w pos)) \<and>
   set (collectedIds st) \<subseteq> set (collectedIds (fold (onPosition m) samples st)) \<and>
   collectedIds (resetProgress now err st) = [] \<and>
   (deviceId st \<noteq> [] \<and> isUuid (route_id (route st)) \<and> route_id (route st) = selectedRouteId st
      \<longrightarrow> upserts (resetProgress now err st) =
            upserts st @
              [\<lparr>row_route_id = route_id (route st), row_device_id = deviceId st,
                collected_piece_ids = [], completed_at = None, updated_at = now\<rparr>]) \<and>
   (deviceId st = [] \<or> \<not> isUuid (route_id (route st)) \<or> route_id (route st) \<noteq> selectedRouteId st
      \<longrightarrow> upserts (resetProgress now err st) = upserts st)"
  using onPosition_mono[of st m pos] onPosition_union[of st _ m pos]
    fold_onPosition_mono[of st m samples]
    resetProgress_empty[of now err st] resetProgress_writes[of st now err]
    resetProgress_blocked[of st now err]
  by (intro conjI allI impI) blast+

theorem collected_grows_and_resets_witness:
  "collectedIds walking_A = [] \<and>
   collectedIds (onPosition binary64 origin walking_A) = [piece_1] \<and>
   set (collectedIds walking_A) \<subseteq> set (collectedIds (fold (onPosition binary64) [origin, origin] walking_A)) \<and>
   collectedIds (resetProgress ''2026-01-01T00:00:00.000Z'' None (onPosition binary64 origin walking_A)) = [] \<and>
   upserts (resetProgress ''2026-01-01T00:00:00.000Z'' None (onPosition binary64 origin walking_A)) =
     [\<lparr>row_route_id = route_A, row_device_id = ''device-1'',
       collected_piece_ids = [], completed_at = None,
       updated_at = ''2026-01-01T00:00:00.000Z''\<rparr>]"
proof -
  have k: "deviceId (onPosition binary64 origin walking_A) = ''device-1''"
    "route_id (route (onPosition binary64 origin walking_A)) = route_A"
    "selectedRouteId (onPosition binary64 origin walking_A) = route_A"
    "upserts (onPosition binary64 origin walking_A) = []"
    "collectedIds walking_A = []"
    by (simp_all add: onPosition_keeps walking_A_eq loaded_A_eq mounted_app_def initial_app_def)
  show ?thesis
    using collected_grows_and_resets[of "onPosition binary64 origin walking_A" binary64 origin "[]"
        "''2026-01-01T00:00:00.000Z''" None]
      collected_grows_and_resets[of walking_A binary64 origin "[origin, origin]"
        "''2026-01-01T00:00:00.000Z''" None]
    by (simp add: k walking_A_sample isUuid_examples)
qed

text \<open>
  The claim as written fails where the guard of \<open>saveProgress\<close> does not pass. In
  \<open>imported_A\<close> the route id is that of route A and the selected id that of route B,
  the piece of route A is collected, and the \<^verbatim>\<open>progress\<close> table holds that piece for
  route A from the first session. The reset empties the collected ids and sends nothing,
  so the stored progress of route A still holds the piece.
\<close>

theorem reset_not_persisted_counterexample:
  "route_id (route imported_A) = route_A \<and>
   collectedIds imported_A = [piece_1] \<and>
   map collected_piece_ids (upserts imported_A) = [[piece_1]] \<and>
   collectedIds (resetProgress ''2026-02-02T00:00:00.000Z'' None imported_A) = [] \<and>
   map collected_piece_ids (upserts (resetProgress ''2026-02-02T00:00:00.000Z'' None imported_A))
     = [[piece_1]]"
  by (simp add: resetProgress_def saveProgress_def imported_A_eq session_A_eq loaded_A_eq
      mounted_app_def initial_app_def examples_distinct)

section \<open>Collection engine: which pieces a sample collects\<close>

text \<open>
  What the callback does with the values it holds: the ids it adds are those of the
  pieces of its own \<open>w_remaining\<close> within its own \<open>w_collectionRadius\<close>, the bound
  included; and \<open>startWalk\<close> hands it the remaining pieces and the radius of the moment
  the walk starts. So the first sample after the start collects exactly the uncollected
  pieces within the radius.
\<close>

lemma newlyCollected_iff:
  "i \<in> set (newlyCollected m w pos) \<longleftrightarrow>
     (\<exists>p \<in> set (w_remaining w). piece_id p = i \<and> js_le (haversineMeters m pos p) (Num (w_collectionRadius w)))"
  by (auto simp: newlyCollected_def)

lemma startWalk_captures:
  "selectedRouteId st \<noteq> [] \<Longrightarrow> watchIdRef st = None \<Longrightarrow>
     watchIdRef (startWalk True st) =
       Some \<lparr>w_remaining = remaining st, w_collectionRadius = collectionRadius st\<rparr>"
  by (simp add: startWalk_def)

lemma first_sample_collects:
  assumes "selectedRouteId st \<noteq> []" "watchIdRef st = None"
  shows "i \<in> set (collectedIds (onPosition m pos (startWalk True st))) \<longleftrightarrow>
           i \<in> set (collectedIds st) \<or>
           (\<exists>p \<in> set (pieces st). piece_id p = i \<and> piece_id p \<notin> set (collectedIds st) \<and>
              js_le (haversineMeters m pos p) (Num (collectionRadius st)))"
proof -
  have c: "collectedIds (startWalk True st) = collectedIds st"
    using assms by (simp add: startWalk_def)
  show ?thesis
    using onPosition_union[OF startWalk_captures[OF assms], of m pos]
    by (auto simp: c newlyCollected_iff remaining_def orderedPieces_def)
qed

lemma late_piece_eq:
  "late_piece =
     loaded_empty_A\<lparr>watchIdRef := Some \<lparr>w_remaining = [], w_collectionRadius = 30\<rparr>,
        pieces := [\<lparr>lat = 0, lng = 0, piece_id = piece_1, piece_order = 1, imageFragmentUrl = []\<rparr>]\<rparr>"
  by (simp add: late_piece_def addPiece_def startWalk_def remaining_def orderedPieces_def
      loaded_empty_A_eq mounted_app_def initial_app_def examples_distinct origin_def)

text \<open>
  Claim C1 says that a sample adds a piece to the collected ids exactly when the piece
  is within the collection radius of the sample, the bound included, and that only
  pieces not yet collected are evaluated. Two runs of the code where it does otherwise.
  In the first the walk starts on a route without pieces and a piece is placed
  afterwards: a sample at distance 0 from the piece, within the radius of 30, collects
  nothing, because the callback still holds the empty list of the moment the walk
  started. In the second a piece is collected by one sample, and at the next sample the
  callback finds the same piece again although its id is among the collected ids.
\<close>

theorem stale_watch_run:
  "map piece_id (pieces late_piece) = [piece_1] \<and>
   collectedIds late_piece = [] \<and>
   map (\<lambda>p. js_le (haversineMeters binary64 origin p) (Num (collectionRadius late_piece)))
     (pieces late_piece) = [True] \<and>
   collectedIds (onPosition binary64 origin late_piece) = [] \<and>
   collectedIds (onPosition binary64 origin walking_A) = [piece_1] \<and>
   map_option (\<lambda>w. newlyCollected binary64 w origin) (watchIdRef (onPosition binary64 origin walking_A))
     = Some [piece_1]"
proof -
  have a: "collectedIds (onPosition binary64 origin late_piece) = []"
    by (simp add: late_piece_eq onPosition_def newlyCollected_def Let_def loaded_empty_A_eq
        mounted_app_def initial_app_def)
  have b: "map (\<lambda>p. js_le (haversineMeters binary64 origin p) (Num (collectionRadius late_piece)))
     (pieces late_piece) = [True]"
    by (simp add: late_piece_eq loaded_empty_A_eq mounted_app_def initial_app_def origin_def
        haversineMeters_origin)
  have c: "watchIdRef (onPosition binary64 origin walking_A) = watchIdRef walking_A"
    by (simp add: onPosition_keeps)
  have d: "map_option (\<lambda>w. newlyCollected binary64 w origin) (watchIdRef walking_A) = Some [piece_1]"
    by (simp add: walking_A_eq newlyCollected_def origin_def haversineMeters_origin)
  show ?thesis
    using a b d
    by (simp add: c walking_A_sample) (simp add: late_piece_eq loaded_empty_A_eq mounted_app_def initial_app_def)
qed

section \<open>Collected ids and the current pieces\<close>

lemma loadProgress_subset:
  assumes "routeId \<noteq> []" "deviceId st \<noteq> []" "isUuid routeId"
  shows "set (collectedIds (loadProgress routeId pieceIds (Inr data) st)) \<subseteq> set pieceIds"
  using assms by (auto simp: loadProgress_def)

lemma loadProgress_failed:
  "collectedIds (loadProgress routeId pieceIds (Inl msg) st) = collectedIds st"
  by (simp add: loadProgress_def)

lemma removePiece_subset:
  assumes "set (collectedIds st) \<subseteq> piece_id ` set (pieces st)"
  shows "set (collectedIds (removePiece pieceId st)) \<subseteq> piece_id ` set (pieces (removePiece pieceId st))"
    and "pieceId \<notin> set (collectedIds (removePiece pieceId st))"
  using assms by (auto simp: removePiece_def)

text \<open>
  Claim C6 says that the collected ids are always ids of current pieces. A run of the
  code where they are not: route A is loaded with its piece collected; then route B is
  loaded and the query for its progress fails. \<open>loadProgress\<close> returns before it
  sets the collected ids, so the piece of route A stays collected while the pieces are
  those of route B, the component reports route B as complete, and the saving effect
  stores the piece of route A as progress of route B.
\<close>

theorem stale_progress_run:
  "collectedIds (loaded_A [piece_1]) = [piece_1] \<and>
   map piece_id (pieces stale_B) = [piece_2] \<and>
   collectedIds stale_B = [piece_1] \<and>
   \<not> set (collectedIds stale_B) \<subseteq> piece_id ` set (pieces stale_B) \<and>
   allCollected stale_B \<and>
   map (\<lambda>row. (row_route_id row, collected_piece_ids row))
     (upserts (saveEffect ''2026-01-01T00:00:00.000Z'' None stale_B)) = [(route_B, [piece_1])]"
proof -
  have e: "stale_B =
     (loaded_A [piece_1])\<lparr>route := \<lparr>route_id = route_B, route_name = ''Walk'', center = origin, radiusM = 800\<rparr>,
        pieces := [\<lparr>lat = 0, lng = 0, piece_id = piece_2, piece_order = 1, imageFragmentUrl = []\<rparr>],
        walkError := ''Failed to fetch'', adminError := ''Failed to fetch'',
        selectedRouteId := route_B\<rparr>"
    by (simp add: stale_B_def loadRoute_def loadProgress_def Let_def route_row_of_def piece_row_of_def
        loaded_A_eq mounted_app_def initial_app_def isUuid_examples examples_distinct origin_def
        normalizePiece_def truthy_def)
  have c: "collectedIds (loaded_A [piece_1]) = [piece_1]"
    by (simp add: loaded_A_eq)
  have w: "map (\<lambda>row. (row_route_id row, collected_piece_ids row))
     (upserts (saveEffect ''2026-01-01T00:00:00.000Z'' None stale_B)) = [(route_B, [piece_1])]"
    by (simp add: e saveEffect_def saveProgress_def Let_def loaded_A_eq mounted_app_def
        initial_app_def isUuid_examples)
  show ?thesis
    using w by (simp add: e c allCollected_def examples_distinct)
qed

text \<open>The stale id of that run, named.\<close>

theorem stale_progress_run_witness:
  "piece_1 \<in> set (collectedIds stale_B) \<and> piece_1 \<notin> piece_id ` set (pieces stale_B)"
proof -
  have "collectedIds stale_B = [piece_1]" "map piece_id (pieces stale_B) = [piece_2]"
    using stale_progress_run by simp_all
  then have "set (collectedIds stale_B) = {piece_1}" "piece_id ` set (pieces stale_B) = {piece_2}"
    by (simp_all flip: set_map)
  then show ?thesis by (simp add: examples_distinct)
qed

section \<open>The order of the pieces\<close>

lemma addPiece_dense:
  assumes "map piece_order (pieces st) = map int [1..<Suc (length (pieces st))]"
  shows "map piece_order (pieces (addPiece newId point st)) =
           map int [1..<Suc (length (pieces (addPiece newId point st)))]"
  using assms by (simp add: addPiece_def)

text \<open>
  Claim C8 says that the orders of the pieces are always the integers from 1 to the
  piece count. A run of the code where they are not: four pieces are placed and have the
  orders 1, 2, 3, 4; removing the first leaves the orders 2, 3, 4; after the second is
  removed too, the piece placed next gets the order 3 a second time. Sorted by order, the
  new piece then stands before the piece of order 4, while \<open>applyImageFragments\<close> hands
  out the fragments by position in the unsorted list.
\<close>

theorem removePiece_order_run:
  "map piece_order (pieces four_pieces) = [1, 2, 3, 4] \<and>
   map piece_order (pieces (removePiece piece_1 four_pieces)) = [2, 3, 4] \<and>
   map piece_order (pieces regrown) = [3, 4, 3] \<and>
   map piece_id (pieces regrown) = [piece_3, piece_4, piece_5] \<and>
   map piece_id (orderedPieces regrown) = [piece_3, piece_5, piece_4]"
proof -
  have d: "piece_1 \<noteq> piece_2" "piece_1 \<noteq> piece_3" "piece_1 \<noteq> piece_4"
    "piece_2 \<noteq> piece_3" "piece_2 \<noteq> piece_4"
    by (simp_all add: piece_1_def piece_2_def piece_3_def piece_4_def)
  have f: "pieces four_pieces =
     [\<lparr>lat = 0, lng = 0, piece_id = piece_1, piece_order = 1, imageFragmentUrl = []\<rparr>,
      \<lparr>lat = 0, lng = 0, piece_id = piece_2, piece_order = 2, imageFragmentUrl = []\<rparr>,
      \<lparr>lat = 0, lng = 0, piece_id = piece_3, piece_order = 3, imageFragmentUrl = []\<rparr>,
      \<lparr>lat = 0, lng = 0, piece_id = piece_4, piece_order = 4, imageFragmentUrl = []\<rparr>]"
    by (simp add: four_pieces_def addPiece_def loaded_empty_A_eq mounted_app_def initial_app_def
        origin_def)
  have r: "pieces regrown =
     [\<lparr>lat = 0, lng = 0, piece_id = piece_3, piece_order = 3, imageFragmentUrl = []\<rparr>,
      \<lparr>lat = 0, lng = 0, piece_id = piece_4, piece_order = 4, imageFragmentUrl = []\<rparr>,
      \<lparr>lat = 0, lng = 0, piece_id = piece_5, piece_order = 3, imageFragmentUrl = []\<rparr>]"
    using d by (simp add: regrown_def addPiece_def removePiece_def f origin_def)
  have one: "map piece_order (pieces (removePiece piece_1 four_pieces)) = [2, 3, 4]"
    using d by (simp add: removePiece_def f)
  have sorted: "map piece_id (orderedPieces regrown) = [piece_3, piece_5, piece_4]"
    by (simp add: orderedPieces_def r)
  show ?thesis
    using one sorted by (simp add: f r)
qed

end
